theory Spec2Isabelle
  imports Main "HOL-Library.Char_ord" "HOL-Library.List_Lexorder" "HOL-Library.Sublist"
begin

section \<open>Common conventions\<close>

text \<open>
  JavaScript strings are modelled as \<open>string\<close>: a list of 8-bit code units, that is the
  Latin-1 range of the UTF-16 code units. The relational operators of JavaScript on two
  strings compare code units lexicographically, which is the order of
  \<open>List_Lexorder\<close> over \<open>Char_ord\<close>.

  A field that may be \<open>undefined\<close> is an \<open>option\<close>. A thrown \<open>Error\<close> is the
  left summand of a result, carrying its message. An asynchronous method that talks to an
  external capability is a function from the world before to the result and the world after.
\<close>

datatype error = Error string

fun message_of :: "error \<Rightarrow> string" where
  "message_of (Error m) = m"

type_synonym ('s, 'a) io = "'s \<Rightarrow> (error + 'a) \<times> 's"

definition ret :: "'a \<Rightarrow> ('s, 'a) io" where
  "ret x s = (Inr x, s)"

definition throw :: "error \<Rightarrow> ('s, 'a) io" where
  "throw e s = (Inl e, s)"

definition andThen :: "('s, 'a) io \<Rightarrow> ('a \<Rightarrow> ('s, 'b) io) \<Rightarrow> ('s, 'b) io" where
  "andThen m f s = (case m s of (Inl e, s') \<Rightarrow> (Inl e, s') | (Inr x, s') \<Rightarrow> f x s')"

definition tryCatch :: "('s, 'a) io \<Rightarrow> (error \<Rightarrow> ('s, 'a) io) \<Rightarrow> ('s, 'a) io" where
  "tryCatch m h s = (case m s of (Inl e, s') \<Rightarrow> h e s' | (Inr x, s') \<Rightarrow> (Inr x, s'))"

text \<open>The idiom \<open>catch (error) { throw new Error(`prefix: ${error.message}`) }\<close>.\<close>

definition rethrow :: "string \<Rightarrow> ('s, 'a) io \<Rightarrow> ('s, 'a) io" where
  "rethrow pre m = tryCatch m (\<lambda>e. throw (Error (pre @ message_of e)))"

text \<open>Truthiness of a possibly undefined string: defined and not empty.\<close>

fun truthy :: "string option \<Rightarrow> bool" where
  "truthy None = False"
| "truthy (Some s) = (s \<noteq> [])"

text \<open>\<open>a || b\<close> on possibly undefined strings.\<close>

fun orElse :: "string option \<Rightarrow> string option \<Rightarrow> string option" where
  "orElse None b = b"
| "orElse (Some s) b = (if s = [] then b else Some s)"

fun orDefault :: "string option \<Rightarrow> string \<Rightarrow> string" where
  "orDefault None d = d"
| "orDefault (Some s) d = (if s = [] then d else s)"

section \<open>Data model (models/User.js)\<close>

record availability_rec =
  day :: string
  isAvailable :: bool
  startTime :: string
  endTime :: string

text \<open>Event times are \<open>Date\<close> values; they are compared by their epoch milliseconds.\<close>

record calendar_event =
  eventId :: string
  status :: string
  makeUnavailable :: bool
  ev_startTime :: int
  ev_endTime :: int

record calendar_integration =
  enabled :: bool
  makeUnavailableDuringEvents :: bool
  events :: "calendar_event list"

record user =
  name :: string
  email :: string
  phoneNumber :: "string option"
  telnyxPhoneNumber :: "string option"
  availability :: "availability_rec list"
  calendarIntegration :: "calendar_integration option"
  voicemailGreeting :: string
  voicemailGreetingUrl :: "string option"
  routeToLiveAgent :: bool
  liveAgentNumber :: "string option"

text \<open>
  One reading of the clock: \<open>new Date()\<close> as epoch milliseconds, and the two strings
  that \<open>moment()\<close> formats from it, \<open>format('dddd').toLowerCase()\<close> and
  \<open>format('HH:mm')\<close>. The formatted strings depend on the time zone of the process, so
  they are given with the instant instead of computed from it.
\<close>

record clock =
  nowMs :: int
  dayOfWeek :: string
  currentTime :: string

section \<open>Availability (calendarService.isUserInMeeting, telnyxService.isUserAvailable)\<close>

definition eventIsCurrent :: "int \<Rightarrow> calendar_event \<Rightarrow> bool" where
  "eventIsCurrent now event =
     (if status event = ''cancelled'' then False
      else if \<not> makeUnavailable event then False
      else ev_startTime event \<le> now \<and> now \<le> ev_endTime event)"

definition isUserInMeeting :: "clock \<Rightarrow> user \<Rightarrow> bool" where
  "isUserInMeeting clk u =
     (case calendarIntegration u of
        None \<Rightarrow> False
      | Some ci \<Rightarrow>
          if \<not> enabled ci \<or> \<not> makeUnavailableDuringEvents ci then False
          else (case find (eventIsCurrent (nowMs clk)) (events ci) of
                  None \<Rightarrow> False
                | Some currentEvent \<Rightarrow> True))"

definition isUserAvailable :: "clock \<Rightarrow> user \<Rightarrow> bool" where
  "isUserAvailable clk u =
     (if isUserInMeeting clk u then False
      else (case find (\<lambda>a. day a = dayOfWeek clk) (availability u) of
              None \<Rightarrow> False
            | Some dayAvailability \<Rightarrow>
                if \<not> isAvailable dayAvailability then False
                else startTime dayAvailability \<le> currentTime clk
                     \<and> currentTime clk \<le> endTime dayAvailability))"

section \<open>Call control (telnyxService)\<close>

text \<open>
  The commands sent through \<open>telnyxClient.calls.update(callControlId, {...})\<close>, one
  constructor for each \<open>command_id\<close> the service uses, with the fields it sets:
  \<open>Answer client_state\<close>, \<open>Transfer to timeout_secs webhook_url webhook_type\<close>,
  \<open>PlayAudio audio_url client_state\<close>, \<open>Gather max_digits timeout_secs client_state\<close>,
  \<open>Speak payload voice language\<close>, \<open>RecordStart format channels play_beep\<close>.
\<close>

datatype call_command =
    Answer "string option"
  | Transfer "string option" "nat option" "string option" string
  | PlayAudio string "string option"
  | Gather nat nat string
  | Speak string string string
  | RecordStart string string bool

type_synonym issued_command = "string \<times> call_command"

text \<open>
  The call-control capability is external: given the commands issued so far and the next
  one, it answers with \<open>result.data\<close> or fails with a message.
\<close>

type_synonym call_client = "issued_command list \<Rightarrow> issued_command \<Rightarrow> string + string"

text \<open>
  The world of the telephony service: the commands issued, in order, and the callbacks
  registered with \<open>setTimeout\<close> (delay in milliseconds and the command the callback
  issues).
\<close>

record telnyx_world =
  issued :: "issued_command list"
  timers :: "(nat \<times> issued_command) list"

definition calls_update :: "call_client \<Rightarrow> string \<Rightarrow> call_command \<Rightarrow> (telnyx_world, string) io" where
  "calls_update cl cid cmd w =
     ((case cl (issued w) (cid, cmd) of Inl m \<Rightarrow> Inl (Error m) | Inr d \<Rightarrow> Inr d),
      w\<lparr>issued := issued w @ [(cid, cmd)]\<rparr>)"

definition setTimeout :: "issued_command \<Rightarrow> nat \<Rightarrow> telnyx_world \<Rightarrow> telnyx_world" where
  "setTimeout callback ms w = w\<lparr>timers := timers w @ [(ms, callback)]\<rparr>"

definition RING_TIMEOUT_SECONDS :: nat where
  "RING_TIMEOUT_SECONDS = 15"

definition CENTRAL_FORWARDING_NUMBER :: string where
  "CENTRAL_FORWARDING_NUMBER = ''+18446942885''"

definition UNAVAILABLE_PROMPT_URL :: string where
  "UNAVAILABLE_PROMPT_URL = ''https://raw.githubusercontent.com/GavvlLaw/voicemail-greetings/main/Unavailable''"

definition GREETING_BASE :: string where
  "GREETING_BASE = ''https://raw.githubusercontent.com/GavvlLaw/voicemail-greetings/main/''"

record call_result =
  action :: string
  result :: string
  message :: "string option"

subsection \<open>encodeURIComponent\<close>

definition uriUnreserved :: "char \<Rightarrow> bool" where
  "uriUnreserved c =
     (c \<in> set ''ABCDEFGHIJKLMNOPQRSTUVWXYZabcdefghijklmnopqrstuvwxyz0123456789-_.!~*()''
      \<or> c = CHR 0x27)"

definition hexDigit :: "nat \<Rightarrow> char" where
  "hexDigit n = ''0123456789ABCDEF'' ! (n mod 16)"

definition percentByte :: "nat \<Rightarrow> string" where
  "percentByte b = [CHR ''%'', hexDigit (b div 16), hexDigit b]"

text \<open>
  A code unit below 128 is one UTF-8 octet; one in 128..255 is two octets.
\<close>

definition encodeChar :: "char \<Rightarrow> string" where
  "encodeChar c =
     (let n = (of_char c :: nat) in
      if uriUnreserved c then [c]
      else if n < 128 then percentByte n
      else percentByte (192 + n div 64) @ percentByte (128 + n mod 64))"

definition encodeURIComponent :: "string \<Rightarrow> string" where
  "encodeURIComponent s = concat (map encodeChar s)"

text \<open>\<open>name.split(' ')[0]\<close>: the part before the first space.\<close>

definition firstWord :: "string \<Rightarrow> string" where
  "firstWord s = takeWhile (\<lambda>c. c \<noteq> CHR '' '') s"

subsection \<open>sendToVoicemail\<close>

definition greetingAudioUrl :: "user \<Rightarrow> string" where
  "greetingAudioUrl u =
     (case voicemailGreetingUrl u of
        Some url \<Rightarrow> if url \<noteq> [] then url
                    else GREETING_BASE @ encodeURIComponent (firstWord (name u) @ '' Voicemail.mp3'')
      | None \<Rightarrow> GREETING_BASE @ encodeURIComponent (firstWord (name u) @ '' Voicemail.mp3''))"

definition recordStart :: call_command where
  "recordStart = RecordStart ''mp3'' ''single'' True"

definition sendToVoicemail :: "call_client \<Rightarrow> string \<Rightarrow> user \<Rightarrow> (telnyx_world, call_result) io" where
  "sendToVoicemail cl callControlId u =
     rethrow ''Failed to send to voicemail: ''
       (tryCatch
          (andThen (calls_update cl callControlId (PlayAudio (greetingAudioUrl u) None))
             (\<lambda>d w. (Inr \<lparr>action = ''voicemail'', result = d, message = None\<rparr>,
                      setTimeout (callControlId, recordStart) 1000 w)))
          (\<lambda>audioError.
             andThen (calls_update cl callControlId (Speak (voicemailGreeting u) ''female'' ''en-US''))
               (\<lambda>d. andThen (calls_update cl callControlId recordStart)
                  (\<lambda>_. ret \<lparr>action = ''voicemail'', result = d, message = None\<rparr>))))"

subsection \<open>handleUnavailableDTMF\<close>

record dtmf_payload =
  call_control_id :: string
  digit :: "string option"

text \<open>
  The two voicemail branches are \<open>return this.sendToVoicemail(...)\<close> without
  \<open>await\<close>: the promise is returned as it is, so its rejection does not pass through
  the \<open>catch\<close> of this method.
\<close>

definition handleUnavailableDTMF ::
  "string option \<Rightarrow> call_client \<Rightarrow> dtmf_payload \<Rightarrow> user \<Rightarrow> (telnyx_world, call_result) io" where
  "handleUnavailableDTMF WEBHOOK_URL cl payload u =
     (if digit payload = Some ''1'' then
        sendToVoicemail cl (call_control_id payload) u
      else if digit payload = Some ''2'' then
        rethrow ''Failed to handle DTMF input: ''
          (andThen (calls_update cl (call_control_id payload)
                      (Transfer (Some CENTRAL_FORWARDING_NUMBER) None WEBHOOK_URL ''transfer''))
             (\<lambda>d. ret \<lparr>action = ''forwarded_to_central'', result = d, message = None\<rparr>))
      else
        sendToVoicemail cl (call_control_id payload) u)"

subsection \<open>handleIncomingCall\<close>

definition handleIncomingCall ::
  "string option \<Rightarrow> call_client \<Rightarrow> clock \<Rightarrow> user \<Rightarrow> string \<Rightarrow> (telnyx_world, call_result) io" where
  "handleIncomingCall WEBHOOK_URL cl clk u callControlId =
     rethrow ''Failed to handle call: ''
       (if isUserAvailable clk u then
          andThen (calls_update cl callControlId (Answer (Some ''awaiting-transfer'')))
            (\<lambda>_. andThen (calls_update cl callControlId
                     (Transfer (phoneNumber u) (Some RING_TIMEOUT_SECONDS) WEBHOOK_URL ''transfer''))
               (\<lambda>d. ret \<lparr>action = ''forwarded'', result = d, message = None\<rparr>))
        else if routeToLiveAgent u \<and> truthy (liveAgentNumber u) then
          andThen (calls_update cl callControlId (Answer (Some ''awaiting-transfer'')))
            (\<lambda>_. andThen (calls_update cl callControlId
                     (Transfer (liveAgentNumber u) (Some RING_TIMEOUT_SECONDS) WEBHOOK_URL ''transfer''))
               (\<lambda>d. ret \<lparr>action = ''routed_to_agent'', result = d, message = None\<rparr>))
        else
          andThen (calls_update cl callControlId (Answer None))
            (\<lambda>_. andThen (calls_update cl callControlId
                     (PlayAudio UNAVAILABLE_PROMPT_URL (Some ''gathering-input'')))
               (\<lambda>d. andThen (calls_update cl callControlId (Gather 1 5 ''unavailable-flow''))
                  (\<lambda>_. ret \<lparr>action = ''unavailable_prompt'', result = d,
                             message = Some ''Playing unavailable prompt with options: 1 for voicemail, 2 for central number''\<rparr>))))"

text \<open>The callback that \<open>setTimeout\<close> runs: it issues its command.\<close>

definition runTimer :: "call_client \<Rightarrow> nat \<times> issued_command \<Rightarrow> telnyx_world \<Rightarrow> telnyx_world" where
  "runTimer cl t w = snd (calls_update cl (fst (snd t)) (snd (snd t)) w)"

section \<open>SMS automations (models/SmsAutomation.js, models/SmsTemplate.js)\<close>

record condition_parameters =
  cond_keywords :: "string list option"
  cond_time :: "string option"
  cond_daysOfWeek :: "string list option"
  cond_availabilityStatus :: "string option"

record condition =
  cond_type :: string
  cond_parameters :: "condition_parameters option"

record sms_template =
  content :: string

text \<open>\<open>delay.value\<close> is a number; whole numbers of the unit are modelled.\<close>

record delay_rec =
  delay_value :: int
  unit :: "string option"

record action_parameters =
  template :: "sms_template option"
  act_message :: "string option"
  delay :: "delay_rec option"
  notifyMethod :: "string option"
  notifyUsers :: "nat list"

record automation_action =
  act_type :: string
  act_parameters :: "action_parameters option"

record statistics =
  timesTriggered :: nat
  lastTriggered :: "int option"
  successCount :: nat
  errorCount :: nat

record automation =
  automation_id :: nat
  automation_name :: string
  isActive :: bool
  automation_user :: nat
  automation_phoneNumber :: string
  conditions :: "condition list"
  actions :: "automation_action list"
  stats :: statistics

text \<open>
  The context object that each entry point builds for the actions; a property that an
  entry point does not set is \<open>undefined\<close>.
\<close>

record call_data =
  duration :: "nat option"

record action_context =
  messageText :: "string option"
  ctx_from :: "string option"
  ctx_to :: "string option"
  automationId :: "nat option"
  ctx_user :: "user option"
  userId :: "nat option"
  callEventType :: "string option"
  callData :: "call_data option"
  availabilityStatus :: "string option"
  scheduledTime :: "string option"
  ctx_dayOfWeek :: "string option"

definition emptyContext :: action_context where
  "emptyContext = \<lparr>messageText = None, ctx_from = None, ctx_to = None, automationId = None,
     ctx_user = None, userId = None, callEventType = None, callData = None,
     availabilityStatus = None, scheduledTime = None, ctx_dayOfWeek = None\<rparr>"

text \<open>An outbound message: from, to, text.\<close>

type_synonym sms = "string \<times> string \<times> string"

text \<open>
  The messaging capability (\<open>telnyxClient.messages.create\<close>): given the messages
  submitted so far and the next one, it answers with the message id or fails.
\<close>

type_synonym sms_client = "sms list \<Rightarrow> sms \<Rightarrow> string + string"

record notification =
  n_type :: string
  n_users :: "nat list"

record delayed_action =
  delayMs :: int
  d_automationId :: nat
  d_action :: automation_action
  d_context :: action_context

text \<open>
  The world of the automation service: the SmsAutomation collection, the messages submitted
  to the messaging capability, the notifications logged, and the callbacks registered with
  \<open>setTimeout\<close>. The collection is a list in memory: a query or an update on it does
  not fail.
\<close>

record sms_world =
  automations_db :: "automation list"
  sent :: "sms list"
  notifications :: "notification list"
  pending :: "delayed_action list"

text \<open>
  What the service reads from outside: the messaging capability, \<open>User.findById\<close>
  (which may fail), and the three strings that \<open>processTemplate\<close> formats from the
  current date.
\<close>

record sms_env =
  messaging :: sms_client
  findUserById :: "nat \<Rightarrow> string + user option"
  localeDate :: string
  localeTime :: string
  localeDay :: string

subsection \<open>String operations of the runtime\<close>

text \<open>\<open>toLowerCase\<close> on the Latin-1 range.\<close>

definition toLowerChar :: "char \<Rightarrow> char" where
  "toLowerChar c =
     (let n = (of_char c :: nat) in
      if (65 \<le> n \<and> n \<le> 90) \<or> (192 \<le> n \<and> n \<le> 222 \<and> n \<noteq> 215)
      then char_of (n + 32) else c)"

definition toLowerCase :: "string \<Rightarrow> string" where
  "toLowerCase s = map toLowerChar s"

text \<open>\<open>s.includes(k)\<close>: \<open>k\<close> starts at some position of \<open>s\<close>.\<close>

fun str_includes :: "string \<Rightarrow> string \<Rightarrow> bool" where
  "str_includes [] k = (k = [])"
| "str_includes (c # cs) k = (prefix k (c # cs) \<or> str_includes cs k)"

text \<open>Decimal rendering of a number, as string conversion does.\<close>

fun showNat :: "nat \<Rightarrow> string" where
  "showNat n = (if n < 10 then [''0123456789'' ! n]
                else showNat (n div 10) @ [''0123456789'' ! (n mod 10)])"

text \<open>
  \<open>new RegExp(key, 'g')\<close> for a key of the variable table. In such a key the braces and
  the letters stand for themselves and the dot matches any code unit that is not a line
  terminator; no key of the table contains another pattern character.
\<close>

datatype pat = Lit char | AnyChar

definition compileKey :: "string \<Rightarrow> pat list" where
  "compileKey key = map (\<lambda>c. if c = CHR ''.'' then AnyChar else Lit c) key"

fun matchesAt :: "pat list \<Rightarrow> string \<Rightarrow> bool" where
  "matchesAt [] s = True"
| "matchesAt (p # ps) [] = False"
| "matchesAt (Lit a # ps) (c # cs) = (a = c \<and> matchesAt ps cs)"
| "matchesAt (AnyChar # ps) (c # cs) = (c \<noteq> CHR 0x0A \<and> c \<noteq> CHR 0x0D \<and> matchesAt ps cs)"

text \<open>
  The replacement text of \<open>String.prototype.replace\<close> for a pattern without capture
  groups: \<open>$$\<close> is a dollar sign, \<open>$&\<close> the matched text, \<open>$`\<close> the text before the
  match and \<open>$'\<close> the text after it; any other character stands for itself.
\<close>

fun getSubstitution :: "string \<Rightarrow> string \<Rightarrow> string \<Rightarrow> string \<Rightarrow> string" where
  "getSubstitution matched pre post [] = []"
| "getSubstitution matched pre post [c] = [c]"
| "getSubstitution matched pre post (c # d # r) =
     (if c = CHR ''$'' \<and> d = CHR ''$'' then CHR ''$'' # getSubstitution matched pre post r
      else if c = CHR ''$'' \<and> d = CHR ''&'' then matched @ getSubstitution matched pre post r
      else if c = CHR ''$'' \<and> d = CHR 0x60 then pre @ getSubstitution matched pre post r
      else if c = CHR ''$'' \<and> d = CHR 0x27 then post @ getSubstitution matched pre post r
      else c # getSubstitution matched pre post (d # r))"

text \<open>
  The global replace: scan from the left; at a match emit the substitution and continue
  after the match, otherwise keep the code unit. \<open>pre\<close> is the text already scanned.
\<close>

function replaceFrom :: "pat list \<Rightarrow> string \<Rightarrow> string \<Rightarrow> string \<Rightarrow> string" where
  "replaceFrom p r pre [] = []"
| "replaceFrom p r pre (c # cs) =
     (if p \<noteq> [] \<and> matchesAt p (c # cs) then
        getSubstitution (take (length p) (c # cs)) pre (drop (length p) (c # cs)) r
          @ replaceFrom p r (pre @ take (length p) (c # cs)) (drop (length p) (c # cs))
      else c # replaceFrom p r (pre @ [c]) cs)"
  by pat_completeness auto
termination
  by (relation "measure (\<lambda>(p, r, pre, s). length s)") (auto simp: neq_Nil_conv)

definition replaceAll :: "string \<Rightarrow> string \<Rightarrow> string \<Rightarrow> string" where
  "replaceAll key v s = replaceFrom (compileKey key) v [] s"


section \<open>smsAutomationService\<close>

subsection \<open>checkTriggerConditions\<close>

text \<open>
  The loop over the conditions. \<open>context.messageText.toLowerCase()\<close> throws when the
  context has no message text; the \<open>catch\<close> of the method then returns \<open>false\<close>.
\<close>

fun checkConditions :: "condition list \<Rightarrow> action_context \<Rightarrow> bool" where
  "checkConditions [] ctx = False"
| "checkConditions (c # cs) ctx =
     (if cond_type c = ''incomingSms'' then True
      else if cond_type c = ''keywordSms'' then
        (case cond_parameters c of
           None \<Rightarrow> checkConditions cs ctx
         | Some ps \<Rightarrow>
             (case cond_keywords ps of
                None \<Rightarrow> checkConditions cs ctx
              | Some kws \<Rightarrow>
                  if kws = [] then checkConditions cs ctx
                  else (case messageText ctx of
                          None \<Rightarrow> False
                        | Some text \<Rightarrow>
                            if list_ex (\<lambda>keyword. str_includes (toLowerCase text) (toLowerCase keyword)) kws
                            then True
                            else checkConditions cs ctx)))
      else checkConditions cs ctx)"

definition checkTriggerConditions :: "automation \<Rightarrow> action_context \<Rightarrow> bool" where
  "checkTriggerConditions a ctx =
     (if conditions a = [] then False else checkConditions (conditions a) ctx)"

subsection \<open>processTemplate\<close>

definition variables :: "sms_env \<Rightarrow> user option \<Rightarrow> action_context \<Rightarrow> (string \<times> string) list" where
  "variables env u ctx =
     [(''{{user.name}}'', orDefault (map_option name u) ''User''),
      (''{{user.firstName}}'', orDefault (map_option (\<lambda>x. firstWord (name x)) u) ''User''),
      (''{{user.email}}'', orDefault (map_option email u) []),
      (''{{user.phone}}'', orDefault (Option.bind u phoneNumber) []),
      (''{{date}}'', localeDate env),
      (''{{time}}'', localeTime env),
      (''{{day}}'', localeDay env),
      (''{{sender}}'', orDefault (ctx_from ctx) []),
      (''{{message}}'', orDefault (messageText ctx) []),
      (''{{callType}}'', orDefault (callEventType ctx) []),
      (''{{callDuration}}'',
         (case Option.bind (callData ctx) duration of
            None \<Rightarrow> ''0'' | Some n \<Rightarrow> if n = 0 then ''0'' else showNat n)),
      (''{{availability}}'', orDefault (availabilityStatus ctx) [])]"

definition replaceVariables :: "(string \<times> string) list \<Rightarrow> string \<Rightarrow> string" where
  "replaceVariables vars s = foldl (\<lambda>c kv. replaceAll (fst kv) (snd kv) c) s vars"

text \<open>
  The user comes from the context, or is looked up by \<open>context.userId\<close>; when the
  lookup fails, the \<open>catch\<close> returns the content as it is.
\<close>

definition processTemplate :: "sms_env \<Rightarrow> sms_template \<Rightarrow> action_context \<Rightarrow> string" where
  "processTemplate env t ctx =
     (case (case ctx_user ctx of
              Some u \<Rightarrow> Inr (Some u)
            | None \<Rightarrow> (case userId ctx of None \<Rightarrow> Inr None | Some i \<Rightarrow> findUserById env i)) of
        Inl e \<Rightarrow> content t
      | Inr u \<Rightarrow> replaceVariables (variables env u ctx) (content t))"

subsection \<open>Actions\<close>

record action_result =
  r_type :: string
  r_status :: string
  r_error :: "string option"
  r_reason :: "string option"
  r_delay :: "delay_rec option"
  r_messageId :: "string option"
  r_to :: "string option"
  r_from :: "string option"
  r_notifyMethod :: "string option"

definition resultOf :: "string \<Rightarrow> string \<Rightarrow> action_result" where
  "resultOf ty st = \<lparr>r_type = ty, r_status = st, r_error = None, r_reason = None, r_delay = None,
     r_messageId = None, r_to = None, r_from = None, r_notifyMethod = None\<rparr>"

text \<open>\<open>telnyxService.sendSMS\<close>.\<close>

definition sendSMS :: "sms_client \<Rightarrow> string \<Rightarrow> string \<Rightarrow> string \<Rightarrow> (sms_world, string) io" where
  "sendSMS cl from to text w =
     ((case cl (sent w) (from, to, text) of
         Inl m \<Rightarrow> Inl (Error (''Failed to send SMS: '' @ m))
       | Inr i \<Rightarrow> Inr i),
      w\<lparr>sent := sent w @ [(from, to, text)]\<rparr>)"

definition executeSendSmsAction ::
  "sms_env \<Rightarrow> automation_action \<Rightarrow> action_context \<Rightarrow> (sms_world, action_result) io" where
  "executeSendSmsAction env act ctx =
     (case act_parameters act of
        None \<Rightarrow> throw (Error ''Missing action parameters'')
      | Some ps \<Rightarrow>
          andThen
            (case template ps of
               Some t \<Rightarrow> ret (processTemplate env t ctx)
             | None \<Rightarrow>
                 (case act_message ps of
                    Some m \<Rightarrow> if m \<noteq> [] then ret m
                              else throw (Error ''No template or message provided for SMS action'')
                  | None \<Rightarrow> throw (Error ''No template or message provided for SMS action'')))
            (\<lambda>text.
               (case (orElse (ctx_to ctx) (Option.bind (ctx_user ctx) telnyxPhoneNumber), ctx_from ctx) of
                  (Some from, Some to) \<Rightarrow>
                    if from = [] \<or> to = [] then throw (Error ''Missing required to/from phone numbers'')
                    else andThen (sendSMS (messaging env) from to text)
                           (\<lambda>i. ret ((resultOf ''sendSms'' ''success'')
                                       \<lparr>r_messageId := Some i, r_to := Some to, r_from := Some from\<rparr>))
                | _ \<Rightarrow> throw (Error ''Missing required to/from phone numbers''))))"

definition executeNotifyAction ::
  "automation_action \<Rightarrow> action_context \<Rightarrow> sms_world \<Rightarrow> action_result \<times> sms_world" where
  "executeNotifyAction act ctx w =
     (let m = orDefault (Option.bind (act_parameters act) notifyMethod) ''app'';
          us = (case act_parameters act of None \<Rightarrow> [] | Some ps \<Rightarrow> notifyUsers ps)
      in ((resultOf ''notify'' ''success'')\<lparr>r_notifyMethod := Some m\<rparr>,
          w\<lparr>notifications := notifications w @ [\<lparr>n_type = m, n_users = us\<rparr>]\<rparr>))"

text \<open>\<open>executeAction\<close> catches whatever the action throws and reports it in the result.\<close>

definition executeAction ::
  "sms_env \<Rightarrow> automation_action \<Rightarrow> action_context \<Rightarrow> sms_world \<Rightarrow> action_result \<times> sms_world" where
  "executeAction env act ctx w =
     (if act_type act = ''sendSms'' then
        (case executeSendSmsAction env act ctx w of
           (Inl e, w') \<Rightarrow> ((resultOf (act_type act) ''error'')\<lparr>r_error := Some (message_of e)\<rparr>, w')
         | (Inr r, w') \<Rightarrow> (r, w'))
      else if act_type act = ''notify'' then executeNotifyAction act ctx w
      else ((resultOf (act_type act) ''skipped'')\<lparr>r_reason := Some ''Action type not implemented''\<rparr>, w))"

subsection \<open>Delayed actions\<close>

text \<open>The delay of an action that is to be scheduled: parameters, delay and a value above 0.\<close>

definition delayOf :: "automation_action \<Rightarrow> delay_rec option" where
  "delayOf act =
     (case act_parameters act of
        None \<Rightarrow> None
      | Some ps \<Rightarrow> (case delay ps of
                     None \<Rightarrow> None
                   | Some d \<Rightarrow> if delay_value d > 0 then Some d else None))"

text \<open>
  The variable \<open>delayMs\<close> of \<open>scheduleDelayedAction\<close>. For a whole number of the unit
  the product is exact in the arithmetic of the runtime up to \<open>2^53\<close>; a product beyond
  that is far above the limit of the timer below, on either side of the rounding.
\<close>

definition delayInMs :: "delay_rec \<Rightarrow> int" where
  "delayInMs d =
     (if unit d = Some ''hours'' then delay_value d * 60 * 60 * 1000
      else if unit d = Some ''days'' then delay_value d * 24 * 60 * 60 * 1000
      else delay_value d * 60 * 1000)"

text \<open>
  \<open>setTimeout(callback, ms)\<close> of the runtime: a delay that is not between 1 and
  \<open>2^31 - 1\<close> milliseconds is set to 1 millisecond.
\<close>

definition TIMEOUT_MAX :: int where
  "TIMEOUT_MAX = 2147483647"

definition timerDelay :: "int \<Rightarrow> int" where
  "timerDelay ms = (if 1 \<le> ms \<and> ms \<le> TIMEOUT_MAX then ms else 1)"

text \<open>
  The registered callback carries the delay after which the runtime runs it.
\<close>

definition scheduleDelayedAction ::
  "nat \<Rightarrow> automation_action \<Rightarrow> delay_rec \<Rightarrow> action_context \<Rightarrow> sms_world \<Rightarrow> sms_world" where
  "scheduleDelayedAction aid act d ctx w =
     w\<lparr>pending := pending w @
          [\<lparr>delayMs = timerDelay (delayInMs d), d_automationId = aid, d_action = act,
            d_context = ctx\<rparr>]\<rparr>"

text \<open>\<open>SmsAutomation.findByIdAndUpdate(id, {$inc: ...})\<close> on the statistics.\<close>

definition updateStats :: "nat \<Rightarrow> (statistics \<Rightarrow> statistics) \<Rightarrow> sms_world \<Rightarrow> sms_world" where
  "updateStats aid f w =
     w\<lparr>automations_db :=
          map (\<lambda>a. if automation_id a = aid then a\<lparr>stats := f (stats a)\<rparr> else a) (automations_db w)\<rparr>"

text \<open>
  The callback registered by \<open>scheduleDelayedAction\<close>: it fetches the automation again
  and runs the action only when the automation is there and active.
\<close>

definition fireDelayedAction :: "sms_env \<Rightarrow> delayed_action \<Rightarrow> sms_world \<Rightarrow> sms_world" where
  "fireDelayedAction env t w =
     (case find (\<lambda>a. automation_id a = d_automationId t) (automations_db w) of
        None \<Rightarrow> w
      | Some a \<Rightarrow>
          if \<not> isActive a then w
          else updateStats (d_automationId t) (\<lambda>s. s\<lparr>successCount := successCount s + 1\<rparr>)
                 (snd (executeAction env (d_action t) (d_context t) w)))"

subsection \<open>executeAutomationActions\<close>

text \<open>
  The loop over the actions. \<open>executeAction\<close> reports every failure in its result and
  \<open>scheduleDelayedAction\<close> only registers a callback, so nothing in the loop throws and
  the \<open>catch\<close> of the method is never entered.
\<close>

fun executeActions ::
  "sms_env \<Rightarrow> nat \<Rightarrow> automation_action list \<Rightarrow> action_context \<Rightarrow> sms_world
     \<Rightarrow> action_result list \<times> sms_world" where
  "executeActions env aid [] ctx w = ([], w)"
| "executeActions env aid (act # acts) ctx w =
     (case delayOf act of
        Some d \<Rightarrow>
          (case executeActions env aid acts ctx (scheduleDelayedAction aid act d ctx w) of
             (rs, w') \<Rightarrow> ((resultOf (act_type act) ''scheduled'')\<lparr>r_delay := Some d\<rparr> # rs, w'))
      | None \<Rightarrow>
          (case executeAction env act ctx w of
             (r, w1) \<Rightarrow> (case executeActions env aid acts ctx w1 of (rs, w') \<Rightarrow> (r # rs, w'))))"

definition executeAutomationActions ::
  "sms_env \<Rightarrow> automation \<Rightarrow> action_context \<Rightarrow> sms_world \<Rightarrow> action_result list \<times> sms_world" where
  "executeAutomationActions env a ctx w = executeActions env (automation_id a) (actions a) ctx w"


subsection \<open>Entry points\<close>

record sms_data =
  sms_to :: string
  sms_from :: string
  sms_text :: string

record process_result =
  processed :: bool
  reason :: "string option"
  triggeredAutomations :: "string list option"
  total :: "nat option"

definition notProcessed :: "string \<Rightarrow> process_result" where
  "notProcessed why = \<lparr>processed = False, reason = Some why, triggeredAutomations = None, total = None\<rparr>"

definition triggered :: "string list \<Rightarrow> process_result" where
  "triggered names = \<lparr>processed = (length names > 0), reason = None,
     triggeredAutomations = Some names, total = Some (length names)\<rparr>"

text \<open>The statistics update after an automation was triggered.\<close>

definition recordTrigger :: "clock \<Rightarrow> nat \<Rightarrow> sms_world \<Rightarrow> sms_world" where
  "recordTrigger clk aid w =
     updateStats aid (\<lambda>s. s\<lparr>timesTriggered := timesTriggered s + 1,
                            successCount := successCount s + 1,
                            lastTriggered := Some (nowMs clk)\<rparr>) w"

text \<open>
  A query on \<open>'conditions.type'\<close> or \<open>'conditions.parameters.x'\<close> holds when some
  element of the array satisfies it.
\<close>

definition anyCondition :: "(condition \<Rightarrow> bool) \<Rightarrow> automation \<Rightarrow> bool" where
  "anyCondition P a = list_ex P (conditions a)"

definition incomingSmsContext :: "sms_data \<Rightarrow> action_context" where
  "incomingSmsContext d =
     emptyContext\<lparr>messageText := Some (sms_text d), ctx_from := Some (sms_from d),
                  ctx_to := Some (sms_to d)\<rparr>"

fun incomingSmsLoop ::
  "sms_env \<Rightarrow> clock \<Rightarrow> automation list \<Rightarrow> sms_data \<Rightarrow> string list \<Rightarrow> sms_world
     \<Rightarrow> string list \<times> sms_world" where
  "incomingSmsLoop env clk [] d names w = (names, w)"
| "incomingSmsLoop env clk (a # as) d names w =
     (if checkTriggerConditions a (incomingSmsContext d) then
        incomingSmsLoop env clk as d (names @ [automation_name a])
          (recordTrigger clk (automation_id a)
             (snd (executeAutomationActions env a
                     ((incomingSmsContext d)\<lparr>automationId := Some (automation_id a)\<rparr>) w)))
      else incomingSmsLoop env clk as d names w)"

definition processIncomingSms ::
  "sms_env \<Rightarrow> clock \<Rightarrow> sms_data \<Rightarrow> sms_world \<Rightarrow> process_result \<times> sms_world" where
  "processIncomingSms env clk d w =
     (let automations =
            filter (\<lambda>a. isActive a \<and> automation_phoneNumber a = sms_to d
                         \<and> anyCondition (\<lambda>c. cond_type c = ''incomingSms'' \<or> cond_type c = ''keywordSms'') a)
                   (automations_db w)
      in if automations = [] then (notProcessed ''No automations configured for this number'', w)
         else (case incomingSmsLoop env clk automations d [] w of
                 (names, w') \<Rightarrow> (triggered names, w')))"

text \<open>
  The common loop of the scheduled and the availability entry points: every automation that
  the query returned is executed, with the context of the entry point.
\<close>

fun executeAll ::
  "sms_env \<Rightarrow> clock \<Rightarrow> (automation \<times> action_context) list \<Rightarrow> string list \<Rightarrow> sms_world
     \<Rightarrow> string list \<times> sms_world" where
  "executeAll env clk [] names w = (names, w)"
| "executeAll env clk ((a, ctx) # rest) names w =
     executeAll env clk rest (names @ [automation_name a])
       (recordTrigger clk (automation_id a) (snd (executeAutomationActions env a ctx w)))"

text \<open>\<open>.populate('user')\<close>: the user of each automation is looked up.\<close>

fun populateUser :: "sms_env \<Rightarrow> automation list \<Rightarrow> string + (automation \<times> user option) list" where
  "populateUser env [] = Inr []"
| "populateUser env (a # as) =
     (case findUserById env (automation_user a) of
        Inl m \<Rightarrow> Inl m
      | Inr u \<Rightarrow> (case populateUser env as of Inl m \<Rightarrow> Inl m | Inr rest \<Rightarrow> Inr ((a, u) # rest)))"

definition scheduledContext :: "clock \<Rightarrow> automation \<Rightarrow> user option \<Rightarrow> action_context" where
  "scheduledContext clk a u =
     emptyContext\<lparr>scheduledTime := Some (currentTime clk), ctx_dayOfWeek := Some (dayOfWeek clk),
                  automationId := Some (automation_id a), ctx_user := u\<rparr>"

definition processScheduledAutomations ::
  "sms_env \<Rightarrow> clock \<Rightarrow> (sms_world, process_result) io" where
  "processScheduledAutomations env clk w =
     (case populateUser env
             (filter (\<lambda>a. isActive a
                          \<and> anyCondition (\<lambda>c. cond_type c = ''scheduledTime'') a
                          \<and> anyCondition (\<lambda>c. Option.bind (cond_parameters c) cond_time
                                                = Some (currentTime clk)) a
                          \<and> anyCondition (\<lambda>c. case Option.bind (cond_parameters c) cond_daysOfWeek of
                                                 None \<Rightarrow> False
                                               | Some ds \<Rightarrow> dayOfWeek clk \<in> set ds) a)
                     (automations_db w)) of
        Inl m \<Rightarrow> (Inl (Error (''Failed to process scheduled SMS automations: '' @ m)), w)
      | Inr automations \<Rightarrow>
          if automations = [] then (Inr (notProcessed ''No scheduled automations for this time''), w)
          else (case executeAll env clk
                       (map (\<lambda>(a, u). (a, scheduledContext clk a u)) automations) [] w of
                  (names, w') \<Rightarrow> (Inr (triggered names), w')))"

definition availabilityContext :: "string \<Rightarrow> nat \<Rightarrow> user \<Rightarrow> automation \<Rightarrow> action_context" where
  "availabilityContext st uid u a =
     emptyContext\<lparr>availabilityStatus := Some st, userId := Some uid, ctx_user := Some u,
                  automationId := Some (automation_id a)\<rparr>"

definition processAvailabilityChange ::
  "sms_env \<Rightarrow> clock \<Rightarrow> nat \<Rightarrow> bool \<Rightarrow> (sms_world, process_result) io" where
  "processAvailabilityChange env clk uid isAvail w =
     (case findUserById env uid of
        Inl m \<Rightarrow> (Inl (Error (''Failed to process availability SMS automations: '' @ m)), w)
      | Inr None \<Rightarrow> (Inr (notProcessed ''User not found or has no phone number''), w)
      | Inr (Some u) \<Rightarrow>
          (case telnyxPhoneNumber u of
             None \<Rightarrow> (Inr (notProcessed ''User not found or has no phone number''), w)
           | Some number \<Rightarrow>
               if number = [] then (Inr (notProcessed ''User not found or has no phone number''), w)
               else
                 (let st = (if isAvail then ''available'' else ''unavailable'');
                      automations =
                        filter (\<lambda>a. isActive a \<and> automation_phoneNumber a = number
                                     \<and> anyCondition (\<lambda>c. cond_type c = ''availability'') a
                                     \<and> (anyCondition (\<lambda>c. Option.bind (cond_parameters c)
                                                              cond_availabilityStatus = Some st) a
                                        \<or> anyCondition (\<lambda>c. Option.bind (cond_parameters c)
                                                               cond_availabilityStatus = Some ''any'') a))
                               (automations_db w)
                  in if automations = [] then
                       (Inr (notProcessed (''No automations configured for '' @ st @ '' status'')), w)
                     else (case executeAll env clk
                                  (map (\<lambda>a. (a, availabilityContext st uid u a)) automations) [] w of
                             (names, w') \<Rightarrow> (Inr (triggered names), w')))))"


text \<open>The entry that \<open>scheduleDelayedAction\<close> registers for an action, if it is delayed.\<close>

definition timerFor :: "nat \<Rightarrow> action_context \<Rightarrow> automation_action \<Rightarrow> delayed_action option" where
  "timerFor aid ctx act =
     map_option (\<lambda>d. \<lparr>delayMs = timerDelay (delayInMs d), d_automationId = aid, d_action = act,
                       d_context = ctx\<rparr>)
       (delayOf act)"

section \<open>Sample data\<close>

definition mon9to5 :: availability_rec where
  "mon9to5 = \<lparr>day = ''monday'', isAvailable = True, startTime = ''09:00'', endTime = ''17:00''\<rparr>"

definition nightShift :: availability_rec where
  "nightShift = \<lparr>day = ''monday'', isAvailable = True, startTime = ''22:00'', endTime = ''02:00''\<rparr>"

definition standup :: calendar_event where
  "standup = \<lparr>eventId = ''e1'', status = ''confirmed'', makeUnavailable = True,
              ev_startTime = 1000, ev_endTime = 2000\<rparr>"

definition mondayTen :: clock where
  "mondayTen = \<lparr>nowMs = 1500, dayOfWeek = ''monday'', currentTime = ''10:00''\<rparr>"

definition alice :: user where
  "alice = \<lparr>name = ''Alice Smith'', email = ''alice@example.com'',
     phoneNumber = Some ''+15550001111'', telnyxPhoneNumber = Some ''+15551234567'',
     availability = [mon9to5],
     calendarIntegration =
       Some \<lparr>enabled = True, makeUnavailableDuringEvents = True, events = [standup]\<rparr>,
     voicemailGreeting = ''Hello'', voicemailGreetingUrl = Some [],
     routeToLiveAgent = False, liveAgentNumber = Some []\<rparr>"

definition carol :: user where
  "carol = \<lparr>name = ''Carol Jones'', email = ''carol@example.com'',
     phoneNumber = Some ''+15550004444'', telnyxPhoneNumber = Some ''+15551230000'',
     availability = [mon9to5], calendarIntegration = None,
     voicemailGreeting = ''Please leave a message.'',
     voicemailGreetingUrl = Some ''https://example.com/carol.mp3'',
     routeToLiveAgent = False, liveAgentNumber = None\<rparr>"

definition dave :: user where
  "dave = \<lparr>name = ''Dave Lee'', email = ''dave@example.com'',
     phoneNumber = Some ''+15550005555'', telnyxPhoneNumber = Some ''+15551231111'',
     availability = [nightShift], calendarIntegration = None,
     voicemailGreeting = ''Please leave a message.'', voicemailGreetingUrl = None,
     routeToLiveAgent = True, liveAgentNumber = Some ''+15550003333''\<rparr>"

definition okClient :: call_client where
  "okClient h c = Inr ''ok''"

definition noAudioClient :: call_client where
  "noAudioClient h c = (case snd c of PlayAudio url st \<Rightarrow> Inl ''404'' | _ \<Rightarrow> Inr ''ok'')"

definition idle :: telnyx_world where
  "idle = \<lparr>issued = [], timers = []\<rparr>"


definition bob :: user where
  "bob = \<lparr>name = ''Bob Stone'', email = ''bob@example.com'',
     phoneNumber = Some ''+15550002222'', telnyxPhoneNumber = Some ''+15551234567'',
     availability = [], calendarIntegration = None,
     voicemailGreeting = ''Hello'', voicemailGreetingUrl = None,
     routeToLiveAgent = False, liveAgentNumber = None\<rparr>"

definition env0 :: sms_env where
  "env0 = \<lparr>messaging = (\<lambda>h m. Inr ''msg-1''), findUserById = (\<lambda>i. Inr None),
     localeDate = ''11/2/2026'', localeTime = ''10:00:00 AM'', localeDay = ''Monday''\<rparr>"

definition noStats :: statistics where
  "noStats = \<lparr>timesTriggered = 0, lastTriggered = None, successCount = 0, errorCount = 0\<rparr>"

definition keywordCondition :: "string list \<Rightarrow> condition" where
  "keywordCondition kws =
     \<lparr>cond_type = ''keywordSms'',
      cond_parameters = Some \<lparr>cond_keywords = Some kws, cond_time = None,
                               cond_daysOfWeek = None, cond_availabilityStatus = None\<rparr>\<rparr>"

definition literalSms :: "string \<Rightarrow> delay_rec option \<Rightarrow> automation_action" where
  "literalSms text d =
     \<lparr>act_type = ''sendSms'',
      act_parameters = Some \<lparr>template = None, act_message = Some text, delay = d,
                              notifyMethod = None, notifyUsers = []\<rparr>\<rparr>"

definition bareSms :: automation_action where
  "bareSms =
     \<lparr>act_type = ''sendSms'',
      act_parameters = Some \<lparr>template = None, act_message = None, delay = None,
                              notifyMethod = None, notifyUsers = []\<rparr>\<rparr>"

definition stopAutomation :: automation where
  "stopAutomation =
     \<lparr>automation_id = 7, automation_name = ''Unsubscribe'', isActive = True, automation_user = 1,
      automation_phoneNumber = ''+15551234567'',
      conditions = [keywordCondition [''stop'']],
      actions = [literalSms ''You have been unsubscribed.'' None],
      stats = noStats\<rparr>"

definition greetAutomation :: automation where
  "greetAutomation =
     \<lparr>automation_id = 9, automation_name = ''Greeting'', isActive = True, automation_user = 1,
      automation_phoneNumber = ''+15551234567'',
      conditions = [keywordCondition [''hello'']],
      actions = [],
      stats = noStats\<rparr>"

definition fiveMinutes :: delay_rec where
  "fiveMinutes = \<lparr>delay_value = 5, unit = Some ''minutes''\<rparr>"

definition followUp :: automation where
  "followUp =
     \<lparr>automation_id = 8, automation_name = ''Follow up'', isActive = True, automation_user = 1,
      automation_phoneNumber = ''+15557654321'',
      conditions = [\<lparr>cond_type = ''incomingSms'', cond_parameters = None\<rparr>],
      actions = [literalSms ''Still there?'' (Some fiveMinutes)],
      stats = noStats\<rparr>"

definition hiContext :: action_context where
  "hiContext = incomingSmsContext \<lparr>sms_to = ''+15557654321'', sms_from = ''+15559990000'', sms_text = ''hi''\<rparr>"

definition followUpTimer :: delayed_action where
  "followUpTimer = \<lparr>delayMs = 300000, d_automationId = 8,
     d_action = literalSms ''Still there?'' (Some fiveMinutes), d_context = hiContext\<rparr>"

definition morningNote :: automation where
  "morningNote =
     \<lparr>automation_id = 10, automation_name = ''Morning note'', isActive = True, automation_user = 1,
      automation_phoneNumber = ''+15557654321'',
      conditions = [\<lparr>cond_type = ''scheduledTime'',
                     cond_parameters = Some \<lparr>cond_keywords = None, cond_time = Some ''10:00'',
                                              cond_daysOfWeek = Some [''monday''],
                                              cond_availabilityStatus = None\<rparr>\<rparr>],
      actions = [bareSms],
      stats = noStats\<rparr>"

definition thirtyDays :: delay_rec where
  "thirtyDays = \<lparr>delay_value = 30, unit = Some ''days''\<rparr>"

definition monthLater :: automation where
  "monthLater =
     \<lparr>automation_id = 11, automation_name = ''A month later'', isActive = True,
      automation_user = 1, automation_phoneNumber = ''+15557654321'',
      conditions = [\<lparr>cond_type = ''incomingSms'', cond_parameters = None\<rparr>],
      actions = [literalSms ''It has been a month.'' (Some thirtyDays)],
      stats = noStats\<rparr>"

definition smsMonth :: sms_world where
  "smsMonth = \<lparr>automations_db = [monthLater], sent = [], notifications = [], pending = []\<rparr>"

definition smsIdle :: sms_world where
  "smsIdle = \<lparr>automations_db = [followUp\<lparr>isActive := False\<rparr>, stopAutomation],
     sent = [], notifications = [], pending = []\<rparr>"

section \<open>Availability: properties\<close>

lemma find_Some_iff_ex: "(\<exists>x. find P xs = Some x) \<longleftrightarrow> (\<exists>x\<in>set xs. P x)"
  by (induction xs) auto

text \<open>
  Claim C2. For a user whose calendar integration is enabled and whose
  make-unavailable-during-events flag is set, if some cached event is not cancelled, has
  \<open>makeUnavailable\<close> and covers the current instant, then \<open>isUserAvailable\<close> is false,
  whatever the weekly schedule says. If the user has no integration, or it is disabled, or
  the flag is unset, the meeting check is false and \<open>isUserAvailable\<close> is what it is
  for the same user without any calendar integration.
\<close>

theorem C2_meeting_precedence:
  "(\<forall>ci. calendarIntegration u = Some ci \<and> enabled ci \<and> makeUnavailableDuringEvents ci \<and>
         (\<exists>e\<in>set (events ci). status e \<noteq> ''cancelled'' \<and> makeUnavailable e
              \<and> ev_startTime e \<le> nowMs clk \<and> nowMs clk \<le> ev_endTime e)
       \<longrightarrow> \<not> isUserAvailable clk u)
   \<and> ((calendarIntegration u = None
        \<or> (\<exists>ci. calendarIntegration u = Some ci
                 \<and> (\<not> enabled ci \<or> \<not> makeUnavailableDuringEvents ci)))
       \<longrightarrow> \<not> isUserInMeeting clk u
           \<and> isUserAvailable clk u = isUserAvailable clk (u\<lparr>calendarIntegration := None\<rparr>))"
proof (intro conjI allI impI)
  fix ci
  assume h: "calendarIntegration u = Some ci \<and> enabled ci \<and> makeUnavailableDuringEvents ci \<and>
         (\<exists>e\<in>set (events ci). status e \<noteq> ''cancelled'' \<and> makeUnavailable e
              \<and> ev_startTime e \<le> nowMs clk \<and> nowMs clk \<le> ev_endTime e)"
  then have "\<exists>e\<in>set (events ci). eventIsCurrent (nowMs clk) e"
    by (auto simp: eventIsCurrent_def)
  then obtain e where "find (eventIsCurrent (nowMs clk)) (events ci) = Some e"
    using find_Some_iff_ex[of "eventIsCurrent (nowMs clk)" "events ci"] by blast
  with h have "isUserInMeeting clk u"
    by (simp add: isUserInMeeting_def)
  then show "\<not> isUserAvailable clk u"
    by (simp add: isUserAvailable_def)
next
  assume h: "calendarIntegration u = None
        \<or> (\<exists>ci. calendarIntegration u = Some ci
                 \<and> (\<not> enabled ci \<or> \<not> makeUnavailableDuringEvents ci))"
  then show "\<not> isUserInMeeting clk u"
    by (auto simp: isUserInMeeting_def)
  then show "isUserAvailable clk u = isUserAvailable clk (u\<lparr>calendarIntegration := None\<rparr>)"
    by (simp add: isUserAvailable_def isUserInMeeting_def)
qed

text \<open>
  Alice is in a meeting on Monday at 10:00, inside her 09:00 to 17:00 window: she is
  unavailable, and available once the calendar integration is taken away.
\<close>

theorem C2_meeting_precedence_witness:
  "\<not> isUserAvailable mondayTen alice
   \<and> \<not> isUserInMeeting mondayTen (alice\<lparr>calendarIntegration := None\<rparr>)
   \<and> isUserAvailable mondayTen (alice\<lparr>calendarIntegration := None\<rparr>)"
  using C2_meeting_precedence[of alice mondayTen]
        C2_meeting_precedence[of "alice\<lparr>calendarIntegration := None\<rparr>" mondayTen]
  by (simp add: alice_def mondayTen_def standup_def mon9to5_def isUserAvailable_def)

text \<open>
  Claim C3. When the user is not in a meeting: without a day-record for the current weekday
  the result is false; with a day-record that is not available the result is false;
  otherwise the result is whether \<open>startTime \<le> currentTime \<le> endTime\<close> in the
  lexicographic order of strings. So a day-record whose end is lexicographically before its
  start gives false at every time of day.
\<close>

theorem C3_schedule_window:
  "\<not> isUserInMeeting clk u \<longrightarrow>
     (find (\<lambda>a. day a = dayOfWeek clk) (availability u) = None \<longrightarrow> \<not> isUserAvailable clk u)
   \<and> (\<forall>d. find (\<lambda>a. day a = dayOfWeek clk) (availability u) = Some d \<longrightarrow>
          (\<not> isAvailable d \<longrightarrow> \<not> isUserAvailable clk u)
        \<and> (isAvailable d \<longrightarrow>
             isUserAvailable clk u = (startTime d \<le> currentTime clk \<and> currentTime clk \<le> endTime d))
        \<and> (endTime d < startTime d \<longrightarrow> (\<forall>t. \<not> isUserAvailable (clk\<lparr>currentTime := t\<rparr>) u)))"
  by (auto simp: isUserAvailable_def isUserInMeeting_def split: option.splits)

text \<open>
  Carol (09:00 to 17:00) is available on Monday at 10:00; Dave (22:00 to 02:00) is not
  available at 23:30; Carol has no record for Sunday, and is not available on a Monday
  that her record marks as not available.
\<close>

theorem C3_schedule_window_witness:
  "isUserAvailable mondayTen carol
   \<and> \<not> isUserAvailable (mondayTen\<lparr>currentTime := ''23:30''\<rparr>) dave
   \<and> \<not> isUserAvailable (mondayTen\<lparr>dayOfWeek := ''sunday''\<rparr>) carol
   \<and> \<not> isUserAvailable mondayTen (carol\<lparr>availability := [mon9to5\<lparr>isAvailable := False\<rparr>]\<rparr>)"
  using C3_schedule_window[of mondayTen carol] C3_schedule_window[of mondayTen dave]
        C3_schedule_window[of "mondayTen\<lparr>dayOfWeek := ''sunday''\<rparr>" carol]
        C3_schedule_window[of mondayTen "carol\<lparr>availability := [mon9to5\<lparr>isAvailable := False\<rparr>]\<rparr>"]
  by (simp add: carol_def dave_def mondayTen_def mon9to5_def nightShift_def isUserInMeeting_def)


section \<open>Call control: properties\<close>

lemma andThen_Inr:
  "andThen m f s = (Inr r, s') \<longleftrightarrow> (\<exists>x s1. m s = (Inr x, s1) \<and> f x s1 = (Inr r, s'))"
  by (auto simp: andThen_def split: prod.splits sum.splits)

lemma rethrow_Inr: "rethrow pre m s = (Inr r, s') \<longleftrightarrow> m s = (Inr r, s')"
  by (auto simp: rethrow_def tryCatch_def throw_def split: prod.splits sum.splits)

lemma ret_Inr: "ret x s = (Inr r, s') \<longleftrightarrow> r = x \<and> s' = s"
  by (auto simp: ret_def)

lemma calls_update_Inr:
  "calls_update cl c cmd w = (Inr d, w') \<longleftrightarrow>
     cl (issued w) (c, cmd) = Inr d \<and> w' = w\<lparr>issued := issued w @ [(c, cmd)]\<rparr>"
  by (auto simp: calls_update_def split: sum.splits)

lemmas io_Inr = andThen_Inr rethrow_Inr ret_Inr calls_update_Inr

lemmas io_defs = ret_def throw_def andThen_def tryCatch_def rethrow_def

lemma handleIncomingCall_forwarded:
  assumes "isUserAvailable clk u" and "handleIncomingCall wh cl clk u cid w = (Inr r, w')"
  shows "action r = ''forwarded''
         \<and> issued w' = issued w @ [(cid, Answer (Some ''awaiting-transfer'')),
                                   (cid, Transfer (phoneNumber u) (Some 15) wh ''transfer'')]"
  using assms
  by (auto simp: handleIncomingCall_def io_Inr RING_TIMEOUT_SECONDS_def)

lemma handleIncomingCall_routed:
  assumes "\<not> isUserAvailable clk u" and "routeToLiveAgent u \<and> truthy (liveAgentNumber u)"
    and "handleIncomingCall wh cl clk u cid w = (Inr r, w')"
  shows "action r = ''routed_to_agent''
         \<and> issued w' = issued w @ [(cid, Answer (Some ''awaiting-transfer'')),
                                   (cid, Transfer (liveAgentNumber u) (Some 15) wh ''transfer'')]"
  using assms
  by (auto simp: handleIncomingCall_def io_Inr RING_TIMEOUT_SECONDS_def)

lemma handleIncomingCall_prompt:
  assumes "\<not> isUserAvailable clk u" and "\<not> (routeToLiveAgent u \<and> truthy (liveAgentNumber u))"
    and "handleIncomingCall wh cl clk u cid w = (Inr r, w')"
  shows "action r = ''unavailable_prompt''
         \<and> issued w' = issued w @ [(cid, Answer None),
                                   (cid, PlayAudio UNAVAILABLE_PROMPT_URL (Some ''gathering-input'')),
                                   (cid, Gather 1 5 ''unavailable-flow'')]"
  using assms
  by (auto simp: handleIncomingCall_def io_Inr)

lemma handleIncomingCall_returns:
  assumes ok: "\<And>h c. \<exists>d. cl h c = Inr d"
  shows "\<exists>r w'. handleIncomingCall wh cl clk u cid w = (Inr r, w')
                \<and> action r \<in> {''forwarded'', ''routed_to_agent'', ''unavailable_prompt''}"
proof (cases "isUserAvailable clk u")
  case True
  obtain d1 where d1: "cl (issued w) (cid, Answer (Some ''awaiting-transfer'')) = Inr d1"
    using ok by blast
  obtain d2 where d2: "cl (issued w @ [(cid, Answer (Some ''awaiting-transfer''))])
      (cid, Transfer (phoneNumber u) (Some RING_TIMEOUT_SECONDS) wh ''transfer'') = Inr d2"
    using ok by blast
  show ?thesis using True d1 d2 by (simp add: handleIncomingCall_def io_Inr)
next
  case False
  show ?thesis
  proof (cases "routeToLiveAgent u \<and> truthy (liveAgentNumber u)")
    case True
    obtain d1 where d1: "cl (issued w) (cid, Answer (Some ''awaiting-transfer'')) = Inr d1"
      using ok by blast
    obtain d2 where d2: "cl (issued w @ [(cid, Answer (Some ''awaiting-transfer''))])
        (cid, Transfer (liveAgentNumber u) (Some RING_TIMEOUT_SECONDS) wh ''transfer'') = Inr d2"
      using ok by blast
    show ?thesis using False True d1 d2 by (simp add: handleIncomingCall_def io_Inr)
  next
    case no: False
    obtain d1 where d1: "cl (issued w) (cid, Answer None) = Inr d1"
      using ok by blast
    obtain d2 where d2: "cl (issued w @ [(cid, Answer None)])
        (cid, PlayAudio UNAVAILABLE_PROMPT_URL (Some ''gathering-input'')) = Inr d2"
      using ok by blast
    obtain d3 where d3: "cl (issued w @ [(cid, Answer None),
            (cid, PlayAudio UNAVAILABLE_PROMPT_URL (Some ''gathering-input''))])
        (cid, Gather 1 5 ''unavailable-flow'') = Inr d3"
      using ok by blast
    show ?thesis using False no d1 d2 d3 by (auto simp: handleIncomingCall_def io_Inr)
  qed
qed

text \<open>
  Claim C1. Whenever \<open>handleIncomingCall\<close> returns, its action is the one chosen by the
  priority order, and the commands it has issued are those of that branch: for an available
  user \<open>forwarded\<close>, after an answer and a transfer to \<open>user.phoneNumber\<close> with a
  timeout of 15 seconds; otherwise, with \<open>routeToLiveAgent\<close> and a non-empty
  \<open>liveAgentNumber\<close>, \<open>routed_to_agent\<close>, after an answer and a transfer to that number
  with the same timeout; otherwise \<open>unavailable_prompt\<close>, after an answer, the prompt
  audio and a one-digit gather of 5 seconds. And it does return, with one of the three
  actions, whenever the call-control capability accepts the commands (a rejected command is
  rethrown as an error, as for every external failure).
\<close>

theorem C1_handleIncomingCall_priority:
  "(\<forall>r w'. handleIncomingCall wh cl clk u cid w = (Inr r, w') \<longrightarrow>
      (isUserAvailable clk u \<longrightarrow>
         action r = ''forwarded''
         \<and> issued w' = issued w @ [(cid, Answer (Some ''awaiting-transfer'')),
                                   (cid, Transfer (phoneNumber u) (Some 15) wh ''transfer'')])
    \<and> (\<not> isUserAvailable clk u \<and> routeToLiveAgent u \<and> truthy (liveAgentNumber u) \<longrightarrow>
         action r = ''routed_to_agent''
         \<and> issued w' = issued w @ [(cid, Answer (Some ''awaiting-transfer'')),
                                   (cid, Transfer (liveAgentNumber u) (Some 15) wh ''transfer'')])
    \<and> (\<not> isUserAvailable clk u \<and> \<not> (routeToLiveAgent u \<and> truthy (liveAgentNumber u)) \<longrightarrow>
         action r = ''unavailable_prompt''
         \<and> issued w' = issued w @ [(cid, Answer None),
                                   (cid, PlayAudio UNAVAILABLE_PROMPT_URL (Some ''gathering-input'')),
                                   (cid, Gather 1 5 ''unavailable-flow'')]))
   \<and> ((\<forall>h c. \<exists>d. cl h c = Inr d) \<longrightarrow>
        (\<exists>r w'. handleIncomingCall wh cl clk u cid w = (Inr r, w')
                \<and> action r \<in> {''forwarded'', ''routed_to_agent'', ''unavailable_prompt''}))"
proof -
  have A: "\<forall>r w'. handleIncomingCall wh cl clk u cid w = (Inr r, w') \<longrightarrow>
      (isUserAvailable clk u \<longrightarrow>
         action r = ''forwarded''
         \<and> issued w' = issued w @ [(cid, Answer (Some ''awaiting-transfer'')),
                                   (cid, Transfer (phoneNumber u) (Some 15) wh ''transfer'')])
    \<and> (\<not> isUserAvailable clk u \<and> routeToLiveAgent u \<and> truthy (liveAgentNumber u) \<longrightarrow>
         action r = ''routed_to_agent''
         \<and> issued w' = issued w @ [(cid, Answer (Some ''awaiting-transfer'')),
                                   (cid, Transfer (liveAgentNumber u) (Some 15) wh ''transfer'')])
    \<and> (\<not> isUserAvailable clk u \<and> \<not> (routeToLiveAgent u \<and> truthy (liveAgentNumber u)) \<longrightarrow>
         action r = ''unavailable_prompt''
         \<and> issued w' = issued w @ [(cid, Answer None),
                                   (cid, PlayAudio UNAVAILABLE_PROMPT_URL (Some ''gathering-input'')),
                                   (cid, Gather 1 5 ''unavailable-flow'')])"
  proof (intro allI impI)
    fix r w'
    assume h: "handleIncomingCall wh cl clk u cid w = (Inr r, w')"
    show "(isUserAvailable clk u \<longrightarrow>
         action r = ''forwarded''
         \<and> issued w' = issued w @ [(cid, Answer (Some ''awaiting-transfer'')),
                                   (cid, Transfer (phoneNumber u) (Some 15) wh ''transfer'')])
    \<and> (\<not> isUserAvailable clk u \<and> routeToLiveAgent u \<and> truthy (liveAgentNumber u) \<longrightarrow>
         action r = ''routed_to_agent''
         \<and> issued w' = issued w @ [(cid, Answer (Some ''awaiting-transfer'')),
                                   (cid, Transfer (liveAgentNumber u) (Some 15) wh ''transfer'')])
    \<and> (\<not> isUserAvailable clk u \<and> \<not> (routeToLiveAgent u \<and> truthy (liveAgentNumber u)) \<longrightarrow>
         action r = ''unavailable_prompt''
         \<and> issued w' = issued w @ [(cid, Answer None),
                                   (cid, PlayAudio UNAVAILABLE_PROMPT_URL (Some ''gathering-input'')),
                                   (cid, Gather 1 5 ''unavailable-flow'')])"
      using handleIncomingCall_forwarded[OF _ h] handleIncomingCall_routed[OF _ _ h]
            handleIncomingCall_prompt[OF _ _ h]
      by blast
  qed
  have B: "(\<forall>h c. \<exists>d. cl h c = Inr d) \<longrightarrow>
        (\<exists>r w'. handleIncomingCall wh cl clk u cid w = (Inr r, w')
                \<and> action r \<in> {''forwarded'', ''routed_to_agent'', ''unavailable_prompt''})"
    using handleIncomingCall_returns[of cl wh clk u cid w] by blast
  show ?thesis by (rule conjI[OF A B])
qed

text \<open>
  With a capability that accepts every command, on Monday at 10:00: Carol is available and
  the call is forwarded; Dave is outside his window and has a live agent; Alice is in a
  meeting and has none.
\<close>

theorem C1_handleIncomingCall_priority_witness:
  "(\<exists>r w'. handleIncomingCall None okClient mondayTen carol ''c1'' idle = (Inr r, w')
        \<and> action r = ''forwarded''
        \<and> issued w' = [(''c1'', Answer (Some ''awaiting-transfer'')),
                        (''c1'', Transfer (Some ''+15550004444'') (Some 15) None ''transfer'')])
   \<and> (\<exists>r w'. handleIncomingCall None okClient mondayTen dave ''c1'' idle = (Inr r, w')
        \<and> action r = ''routed_to_agent''
        \<and> issued w' = [(''c1'', Answer (Some ''awaiting-transfer'')),
                        (''c1'', Transfer (Some ''+15550003333'') (Some 15) None ''transfer'')])
   \<and> (\<exists>r w'. handleIncomingCall None okClient mondayTen alice ''c1'' idle = (Inr r, w')
        \<and> action r = ''unavailable_prompt'')"
proof -
  have ok: "\<forall>h c. \<exists>d. okClient h c = Inr d"
    by (simp add: okClient_def)
  have a1: "isUserAvailable mondayTen carol"
    by (simp add: isUserAvailable_def isUserInMeeting_def carol_def mondayTen_def mon9to5_def)
  have a2: "\<not> isUserAvailable mondayTen dave \<and> routeToLiveAgent dave \<and> truthy (liveAgentNumber dave)"
    by (simp add: isUserAvailable_def isUserInMeeting_def dave_def mondayTen_def nightShift_def)
  have a3: "\<not> isUserAvailable mondayTen alice
            \<and> \<not> (routeToLiveAgent alice \<and> truthy (liveAgentNumber alice))"
    by (simp add: isUserAvailable_def isUserInMeeting_def eventIsCurrent_def alice_def
          mondayTen_def standup_def)
  have e: "issued idle = []" "phoneNumber carol = Some ''+15550004444''"
          "liveAgentNumber dave = Some ''+15550003333''"
    by (simp_all add: idle_def carol_def dave_def)
  note t1 = C1_handleIncomingCall_priority[of None okClient mondayTen carol "''c1''" idle]
  note t2 = C1_handleIncomingCall_priority[of None okClient mondayTen dave "''c1''" idle]
  note t3 = C1_handleIncomingCall_priority[of None okClient mondayTen alice "''c1''" idle]
  obtain r1 w1 where h1: "handleIncomingCall None okClient mondayTen carol ''c1'' idle = (Inr r1, w1)"
    using conjunct2[OF t1] ok by blast
  have c1: "action r1 = ''forwarded''
        \<and> issued w1 = issued idle @ [(''c1'', Answer (Some ''awaiting-transfer'')),
                        (''c1'', Transfer (phoneNumber carol) (Some 15) None ''transfer'')]"
    using conjunct1[OF t1] h1 a1 by blast
  obtain r2 w2 where h2: "handleIncomingCall None okClient mondayTen dave ''c1'' idle = (Inr r2, w2)"
    using conjunct2[OF t2] ok by blast
  have c2: "action r2 = ''routed_to_agent''
        \<and> issued w2 = issued idle @ [(''c1'', Answer (Some ''awaiting-transfer'')),
                        (''c1'', Transfer (liveAgentNumber dave) (Some 15) None ''transfer'')]"
    using conjunct1[OF t2] h2 a2 by blast
  obtain r3 w3 where h3: "handleIncomingCall None okClient mondayTen alice ''c1'' idle = (Inr r3, w3)"
    using conjunct2[OF t3] ok by blast
  have c3: "action r3 = ''unavailable_prompt''"
    using conjunct1[OF t3] h3 a3 by blast
  show ?thesis
    using h1 c1 h2 c2 h3 c3 by (simp add: e)
qed

section \<open>Voicemail and DTMF: properties\<close>

lemma sendToVoicemail_action:
  "sendToVoicemail cl cid u w = (Inr r, w') \<Longrightarrow> action r = ''voicemail''"
  by (auto simp: sendToVoicemail_def io_defs calls_update_def split: sum.splits)

lemma sendToVoicemail_audio:
  assumes "cl (issued w) (cid, PlayAudio (greetingAudioUrl u) None) = Inr d"
  shows "sendToVoicemail cl cid u w =
           (Inr \<lparr>action = ''voicemail'', result = d, message = None\<rparr>,
            w\<lparr>issued := issued w @ [(cid, PlayAudio (greetingAudioUrl u) None)],
              timers := timers w @ [(1000, (cid, RecordStart ''mp3'' ''single'' True))]\<rparr>)"
  using assms
  by (simp add: sendToVoicemail_def io_defs calls_update_def setTimeout_def recordStart_def)

lemma sendToVoicemail_fallback:
  assumes "cl (issued w) (cid, PlayAudio (greetingAudioUrl u) None) = Inl m"
    and "cl (issued w @ [(cid, PlayAudio (greetingAudioUrl u) None)])
            (cid, Speak (voicemailGreeting u) ''female'' ''en-US'') = Inr d"
    and "cl (issued w @ [(cid, PlayAudio (greetingAudioUrl u) None),
                         (cid, Speak (voicemailGreeting u) ''female'' ''en-US'')])
            (cid, RecordStart ''mp3'' ''single'' True) = Inr d'"
  shows "sendToVoicemail cl cid u w =
           (Inr \<lparr>action = ''voicemail'', result = d, message = None\<rparr>,
            w\<lparr>issued := issued w @ [(cid, PlayAudio (greetingAudioUrl u) None),
                                    (cid, Speak (voicemailGreeting u) ''female'' ''en-US''),
                                    (cid, RecordStart ''mp3'' ''single'' True)]\<rparr>)"
  using assms
  by (simp add: sendToVoicemail_def io_defs calls_update_def recordStart_def)

lemma sendToVoicemail_returns:
  assumes ok: "\<And>h c. \<exists>d. cl h c = Inr d"
  shows "\<exists>r w'. sendToVoicemail cl cid u w = (Inr r, w')"
  using ok[of "issued w" "(cid, PlayAudio (greetingAudioUrl u) None)"]
  by (auto simp: sendToVoicemail_audio)

lemma encodeURIComponent_append:
  "encodeURIComponent (a @ b) = encodeURIComponent a @ encodeURIComponent b"
  by (simp add: encodeURIComponent_def)

lemma encode_suffix: "encodeURIComponent '' Voicemail.mp3'' = ''%20Voicemail.mp3''"
  by (simp add: encodeURIComponent_def encodeChar_def uriUnreserved_def percentByte_def hexDigit_def)

text \<open>
  Claim C4. For every outcome of the gather other than the digit \<open>2\<close> (the digit \<open>1\<close>,
  any other digit, or no digit after the timeout), \<open>handleUnavailableDTMF\<close> is exactly
  \<open>sendToVoicemail\<close> on the same call and user: whenever it returns, the action is
  \<open>voicemail\<close>, and it returns whenever the capability accepts the commands. For the
  digit \<open>2\<close> it issues one command, a transfer to the central forwarding number, and
  when that is accepted the action is \<open>forwarded_to_central\<close>.
\<close>

theorem C4_dtmf_routing:
  "(digit p \<noteq> Some ''2'' \<longrightarrow>
      handleUnavailableDTMF wh cl p u = sendToVoicemail cl (call_control_id p) u)
   \<and> (\<forall>r w'. digit p \<noteq> Some ''2'' \<and> handleUnavailableDTMF wh cl p u w = (Inr r, w')
         \<longrightarrow> action r = ''voicemail'')
   \<and> ((\<forall>h c. \<exists>d. cl h c = Inr d) \<and> digit p \<noteq> Some ''2''
         \<longrightarrow> (\<exists>r w'. handleUnavailableDTMF wh cl p u w = (Inr r, w')))
   \<and> (digit p = Some ''2'' \<longrightarrow>
        issued (snd (handleUnavailableDTMF wh cl p u w))
          = issued w @ [(call_control_id p,
                         Transfer (Some ''+18446942885'') None wh ''transfer'')]
        \<and> timers (snd (handleUnavailableDTMF wh cl p u w)) = timers w
        \<and> (\<forall>d. cl (issued w) (call_control_id p,
                      Transfer (Some ''+18446942885'') None wh ''transfer'') = Inr d
             \<longrightarrow> fst (handleUnavailableDTMF wh cl p u w)
                   = Inr \<lparr>action = ''forwarded_to_central'', result = d, message = None\<rparr>))"
proof -
  have A: "digit p \<noteq> Some ''2'' \<longrightarrow>
      handleUnavailableDTMF wh cl p u = sendToVoicemail cl (call_control_id p) u"
    by (simp add: handleUnavailableDTMF_def)
  have B: "\<forall>r w'. digit p \<noteq> Some ''2'' \<and> handleUnavailableDTMF wh cl p u w = (Inr r, w')
         \<longrightarrow> action r = ''voicemail''"
    using A sendToVoicemail_action by auto
  have C: "(\<forall>h c. \<exists>d. cl h c = Inr d) \<and> digit p \<noteq> Some ''2''
         \<longrightarrow> (\<exists>r w'. handleUnavailableDTMF wh cl p u w = (Inr r, w'))"
    using A sendToVoicemail_returns[of cl "call_control_id p" u w] by auto
  have D: "digit p = Some ''2'' \<longrightarrow>
        issued (snd (handleUnavailableDTMF wh cl p u w))
          = issued w @ [(call_control_id p,
                         Transfer (Some ''+18446942885'') None wh ''transfer'')]
        \<and> timers (snd (handleUnavailableDTMF wh cl p u w)) = timers w
        \<and> (\<forall>d. cl (issued w) (call_control_id p,
                      Transfer (Some ''+18446942885'') None wh ''transfer'') = Inr d
             \<longrightarrow> fst (handleUnavailableDTMF wh cl p u w)
                   = Inr \<lparr>action = ''forwarded_to_central'', result = d, message = None\<rparr>)"
    by (auto simp: handleUnavailableDTMF_def io_defs calls_update_def CENTRAL_FORWARDING_NUMBER_def
             split: sum.splits)
  show ?thesis by (intro conjI A B C D)
qed

text \<open>
  With a capability that accepts every command: the digits \<open>1\<close> and \<open>9\<close> and the
  timeout go to voicemail, the digit \<open>2\<close> to the central number.
\<close>

theorem C4_dtmf_routing_witness:
  "(\<exists>r w'. handleUnavailableDTMF None okClient \<lparr>call_control_id = ''c1'', digit = Some ''1''\<rparr> dave idle
               = (Inr r, w') \<and> action r = ''voicemail'')
   \<and> (\<exists>r w'. handleUnavailableDTMF None okClient \<lparr>call_control_id = ''c1'', digit = Some ''9''\<rparr> dave idle
               = (Inr r, w') \<and> action r = ''voicemail'')
   \<and> (\<exists>r w'. handleUnavailableDTMF None okClient \<lparr>call_control_id = ''c1'', digit = None\<rparr> dave idle
               = (Inr r, w') \<and> action r = ''voicemail'')
   \<and> fst (handleUnavailableDTMF None okClient \<lparr>call_control_id = ''c1'', digit = Some ''2''\<rparr> dave idle)
       = Inr \<lparr>action = ''forwarded_to_central'', result = ''ok'', message = None\<rparr>
   \<and> issued (snd (handleUnavailableDTMF None okClient
                     \<lparr>call_control_id = ''c1'', digit = Some ''2''\<rparr> dave idle))
       = [(''c1'', Transfer (Some ''+18446942885'') None None ''transfer'')]"
proof -
  have ok: "\<forall>h c. \<exists>d. okClient h c = Inr d"
    by (simp add: okClient_def)
  let ?p1 = "\<lparr>call_control_id = ''c1'', digit = Some ''1''\<rparr>"
  let ?p9 = "\<lparr>call_control_id = ''c1'', digit = Some ''9''\<rparr>"
  let ?p0 = "\<lparr>call_control_id = ''c1'', digit = None\<rparr>"
  let ?p2 = "\<lparr>call_control_id = ''c1'', digit = Some ''2''\<rparr>"
  note t1 = C4_dtmf_routing[of ?p1 None okClient dave idle]
  note t9 = C4_dtmf_routing[of ?p9 None okClient dave idle]
  note t0 = C4_dtmf_routing[of ?p0 None okClient dave idle]
  note t2 = C4_dtmf_routing[of ?p2 None okClient dave idle]
  have n1: "digit ?p1 \<noteq> Some ''2''" and n9: "digit ?p9 \<noteq> Some ''2''"
    and n0: "digit ?p0 \<noteq> Some ''2''" and y2: "digit ?p2 = Some ''2''"
    by simp_all
  have v1: "\<exists>r w'. handleUnavailableDTMF None okClient ?p1 dave idle = (Inr r, w') \<and> action r = ''voicemail''"
    using t1 ok n1 by blast
  have v9: "\<exists>r w'. handleUnavailableDTMF None okClient ?p9 dave idle = (Inr r, w') \<and> action r = ''voicemail''"
    using t9 ok n9 by blast
  have v0: "\<exists>r w'. handleUnavailableDTMF None okClient ?p0 dave idle = (Inr r, w') \<and> action r = ''voicemail''"
    using t0 ok n0 by blast
  have c: "okClient (issued idle) (call_control_id ?p2, Transfer (Some ''+18446942885'') None None ''transfer'') = Inr ''ok''"
    by (simp add: okClient_def)
  have v2: "fst (handleUnavailableDTMF None okClient ?p2 dave idle)
       = Inr \<lparr>action = ''forwarded_to_central'', result = ''ok'', message = None\<rparr>
     \<and> issued (snd (handleUnavailableDTMF None okClient ?p2 dave idle))
       = issued idle @ [(call_control_id ?p2, Transfer (Some ''+18446942885'') None None ''transfer'')]"
    using t2 y2 c by blast
  show ?thesis
    using v1 v9 v0 v2 by (simp add: idle_def)
qed

text \<open>
  Claim C9. The greeting URL is \<open>user.voicemailGreetingUrl\<close> when that is set (defined
  and not empty), and otherwise the fixed base path followed by the percent-encoded
  \<open><FirstName> Voicemail.mp3\<close>. When the capability accepts the play-audio command,
  the result has action \<open>voicemail\<close> and a callback is registered for 1000 ms that issues
  the start-recording command (mp3, single channel, beep). When it rejects the play-audio
  command, the greeting text is spoken and then, the speech being accepted, the
  start-recording command is issued; the result again has action \<open>voicemail\<close>.
\<close>

theorem C9_sendToVoicemail:
  "(truthy (voicemailGreetingUrl u) \<longrightarrow> Some (greetingAudioUrl u) = voicemailGreetingUrl u)
   \<and> (\<not> truthy (voicemailGreetingUrl u) \<longrightarrow>
        greetingAudioUrl u
          = ''https://raw.githubusercontent.com/GavvlLaw/voicemail-greetings/main/''
            @ encodeURIComponent (firstWord (name u)) @ ''%20Voicemail.mp3'')
   \<and> (\<forall>d. cl (issued w) (cid, PlayAudio (greetingAudioUrl u) None) = Inr d \<longrightarrow>
        sendToVoicemail cl cid u w =
           (Inr \<lparr>action = ''voicemail'', result = d, message = None\<rparr>,
            w\<lparr>issued := issued w @ [(cid, PlayAudio (greetingAudioUrl u) None)],
              timers := timers w @ [(1000, (cid, RecordStart ''mp3'' ''single'' True))]\<rparr>)
        \<and> issued (runTimer cl (1000, (cid, RecordStart ''mp3'' ''single'' True))
                    (snd (sendToVoicemail cl cid u w)))
            = issued w @ [(cid, PlayAudio (greetingAudioUrl u) None),
                          (cid, RecordStart ''mp3'' ''single'' True)])
   \<and> (\<forall>m d d'. cl (issued w) (cid, PlayAudio (greetingAudioUrl u) None) = Inl m
        \<and> cl (issued w @ [(cid, PlayAudio (greetingAudioUrl u) None)])
            (cid, Speak (voicemailGreeting u) ''female'' ''en-US'') = Inr d
        \<and> cl (issued w @ [(cid, PlayAudio (greetingAudioUrl u) None),
                         (cid, Speak (voicemailGreeting u) ''female'' ''en-US'')])
            (cid, RecordStart ''mp3'' ''single'' True) = Inr d'
        \<longrightarrow> sendToVoicemail cl cid u w =
           (Inr \<lparr>action = ''voicemail'', result = d, message = None\<rparr>,
            w\<lparr>issued := issued w @ [(cid, PlayAudio (greetingAudioUrl u) None),
                                    (cid, Speak (voicemailGreeting u) ''female'' ''en-US''),
                                    (cid, RecordStart ''mp3'' ''single'' True)]\<rparr>))"
proof -
  have A: "truthy (voicemailGreetingUrl u) \<longrightarrow> Some (greetingAudioUrl u) = voicemailGreetingUrl u"
    by (cases "voicemailGreetingUrl u") (simp_all add: greetingAudioUrl_def)
  have B: "\<not> truthy (voicemailGreetingUrl u) \<longrightarrow>
        greetingAudioUrl u
          = ''https://raw.githubusercontent.com/GavvlLaw/voicemail-greetings/main/''
            @ encodeURIComponent (firstWord (name u)) @ ''%20Voicemail.mp3''"
    by (cases "voicemailGreetingUrl u")
       (simp_all add: greetingAudioUrl_def GREETING_BASE_def encodeURIComponent_append encode_suffix)
  have C: "\<forall>d. cl (issued w) (cid, PlayAudio (greetingAudioUrl u) None) = Inr d \<longrightarrow>
        sendToVoicemail cl cid u w =
           (Inr \<lparr>action = ''voicemail'', result = d, message = None\<rparr>,
            w\<lparr>issued := issued w @ [(cid, PlayAudio (greetingAudioUrl u) None)],
              timers := timers w @ [(1000, (cid, RecordStart ''mp3'' ''single'' True))]\<rparr>)
        \<and> issued (runTimer cl (1000, (cid, RecordStart ''mp3'' ''single'' True))
                    (snd (sendToVoicemail cl cid u w)))
            = issued w @ [(cid, PlayAudio (greetingAudioUrl u) None),
                          (cid, RecordStart ''mp3'' ''single'' True)]"
    by (simp add: sendToVoicemail_audio runTimer_def calls_update_def)
  have D: "\<forall>m d d'. cl (issued w) (cid, PlayAudio (greetingAudioUrl u) None) = Inl m
        \<and> cl (issued w @ [(cid, PlayAudio (greetingAudioUrl u) None)])
            (cid, Speak (voicemailGreeting u) ''female'' ''en-US'') = Inr d
        \<and> cl (issued w @ [(cid, PlayAudio (greetingAudioUrl u) None),
                         (cid, Speak (voicemailGreeting u) ''female'' ''en-US'')])
            (cid, RecordStart ''mp3'' ''single'' True) = Inr d'
        \<longrightarrow> sendToVoicemail cl cid u w =
           (Inr \<lparr>action = ''voicemail'', result = d, message = None\<rparr>,
            w\<lparr>issued := issued w @ [(cid, PlayAudio (greetingAudioUrl u) None),
                                    (cid, Speak (voicemailGreeting u) ''female'' ''en-US''),
                                    (cid, RecordStart ''mp3'' ''single'' True)]\<rparr>)"
    using sendToVoicemail_fallback[of cl w cid u] by blast
  show ?thesis by (intro conjI A B C D)
qed

text \<open>
  Carol has her own greeting URL and the audio is accepted; Dave has none, the audio for
  \<open>Dave%20Voicemail.mp3\<close> is rejected and his greeting text is spoken.
\<close>

theorem C9_sendToVoicemail_witness:
  "greetingAudioUrl carol = ''https://example.com/carol.mp3''
   \<and> greetingAudioUrl dave
       = ''https://raw.githubusercontent.com/GavvlLaw/voicemail-greetings/main/Dave%20Voicemail.mp3''
   \<and> sendToVoicemail okClient ''c1'' carol idle
       = (Inr \<lparr>action = ''voicemail'', result = ''ok'', message = None\<rparr>,
          \<lparr>issued = [(''c1'', PlayAudio ''https://example.com/carol.mp3'' None)],
           timers = [(1000, (''c1'', RecordStart ''mp3'' ''single'' True))]\<rparr>)
   \<and> sendToVoicemail noAudioClient ''c1'' dave idle
       = (Inr \<lparr>action = ''voicemail'', result = ''ok'', message = None\<rparr>,
          \<lparr>issued = [(''c1'', PlayAudio (greetingAudioUrl dave) None),
                     (''c1'', Speak ''Please leave a message.'' ''female'' ''en-US''),
                     (''c1'', RecordStart ''mp3'' ''single'' True)],
           timers = []\<rparr>)"
proof -
  note tc = C9_sendToVoicemail[of carol okClient idle "''c1''"]
  note td = C9_sendToVoicemail[of dave noAudioClient idle "''c1''"]
  have uc: "truthy (voicemailGreetingUrl carol)"
       "voicemailGreetingUrl carol = Some ''https://example.com/carol.mp3''"
    by (simp_all add: carol_def)
  have ud: "\<not> truthy (voicemailGreetingUrl dave)" "firstWord (name dave) = ''Dave''"
       "voicemailGreeting dave = ''Please leave a message.''"
    by (simp_all add: dave_def firstWord_def)
  have enc: "encodeURIComponent ''Dave'' = ''Dave''"
    by (simp add: encodeURIComponent_def encodeChar_def uriUnreserved_def)
  have g1: "greetingAudioUrl carol = ''https://example.com/carol.mp3''"
    using tc uc by simp
  have g2: "greetingAudioUrl dave
       = ''https://raw.githubusercontent.com/GavvlLaw/voicemail-greetings/main/Dave%20Voicemail.mp3''"
    using td ud enc by simp
  have c1: "okClient (issued idle) (''c1'', PlayAudio (greetingAudioUrl carol) None) = Inr ''ok''"
    by (simp add: okClient_def)
  have s1: "sendToVoicemail okClient ''c1'' carol idle =
           (Inr \<lparr>action = ''voicemail'', result = ''ok'', message = None\<rparr>,
            idle\<lparr>issued := issued idle @ [(''c1'', PlayAudio (greetingAudioUrl carol) None)],
              timers := timers idle @ [(1000, (''c1'', RecordStart ''mp3'' ''single'' True))]\<rparr>)"
    using tc c1 by blast
  have c2: "noAudioClient (issued idle) (''c1'', PlayAudio (greetingAudioUrl dave) None) = Inl ''404''
        \<and> noAudioClient (issued idle @ [(''c1'', PlayAudio (greetingAudioUrl dave) None)])
            (''c1'', Speak (voicemailGreeting dave) ''female'' ''en-US'') = Inr ''ok''
        \<and> noAudioClient (issued idle @ [(''c1'', PlayAudio (greetingAudioUrl dave) None),
                         (''c1'', Speak (voicemailGreeting dave) ''female'' ''en-US'')])
            (''c1'', RecordStart ''mp3'' ''single'' True) = Inr ''ok''"
    by (simp add: noAudioClient_def)
  have s2: "sendToVoicemail noAudioClient ''c1'' dave idle =
           (Inr \<lparr>action = ''voicemail'', result = ''ok'', message = None\<rparr>,
            idle\<lparr>issued := issued idle @ [(''c1'', PlayAudio (greetingAudioUrl dave) None),
                                    (''c1'', Speak (voicemailGreeting dave) ''female'' ''en-US''),
                                    (''c1'', RecordStart ''mp3'' ''single'' True)]\<rparr>)"
    using td c2 by blast
  show ?thesis
    using g1 g2 s1 s2 ud(3) by (simp add: idle_def)
qed

section \<open>Trigger conditions: properties\<close>

lemma str_includes_sublist: "str_includes s k \<longleftrightarrow> sublist k s"
  by (induction s) (auto simp: sublist_Cons_right)

lemma checkConditions_iff:
  assumes "messageText ctx = Some text"
  shows "checkConditions cs ctx \<longleftrightarrow>
     (\<exists>c\<in>set cs. cond_type c = ''incomingSms''
        \<or> (cond_type c = ''keywordSms''
            \<and> (\<exists>ps kws. cond_parameters c = Some ps \<and> cond_keywords ps = Some kws
                  \<and> (\<exists>k\<in>set kws. sublist (toLowerCase k) (toLowerCase text)))))"
  using assms
  by (induction cs) (auto simp: list_ex_iff str_includes_sublist split: option.splits)

text \<open>
  Claim C5. For an inbound SMS with text \<open>text\<close>, \<open>checkTriggerConditions\<close> holds
  exactly when the automation has a condition and some condition is of type
  \<open>incomingSms\<close>, or of type \<open>keywordSms\<close> with a keyword whose lower-case form occurs
  in the lower-case text (the text is some \<open>pre\<close>, the keyword, some \<open>post\<close>). One
  matching condition is enough, and an automation without conditions triggers for no
  context at all. The context that \<open>processIncomingSms\<close> passes carries the text of the
  SMS.
\<close>

theorem C5_trigger_predicate:
  "(messageText ctx = Some text \<longrightarrow>
      checkTriggerConditions a ctx =
        (conditions a \<noteq> []
         \<and> (\<exists>c\<in>set (conditions a). cond_type c = ''incomingSms''
              \<or> (cond_type c = ''keywordSms''
                  \<and> (\<exists>ps kws. cond_parameters c = Some ps \<and> cond_keywords ps = Some kws
                        \<and> (\<exists>k\<in>set kws. \<exists>pre post.
                              toLowerCase text = pre @ toLowerCase k @ post))))))
   \<and> (conditions a = [] \<longrightarrow> \<not> checkTriggerConditions a ctx)
   \<and> messageText (incomingSmsContext d) = Some (sms_text d)"
  by (auto simp: checkTriggerConditions_def checkConditions_iff sublist_def
                 incomingSmsContext_def emptyContext_def)

text \<open>
  The keyword \<open>hello\<close> matches \<open>Well, HELLO there\<close> and does not match \<open>Goodbye\<close>;
  without conditions nothing matches.
\<close>

theorem C5_trigger_predicate_witness:
  "checkTriggerConditions greetAutomation (emptyContext\<lparr>messageText := Some ''Well, HELLO there''\<rparr>)
   \<and> \<not> checkTriggerConditions (greetAutomation\<lparr>conditions := []\<rparr>)
          (emptyContext\<lparr>messageText := Some ''Well, HELLO there''\<rparr>)"
proof -
  let ?ctx = "emptyContext\<lparr>messageText := Some ''Well, HELLO there''\<rparr>"
  note t1 = C5_trigger_predicate[of ?ctx "''Well, HELLO there''" greetAutomation]
  note t2 = C5_trigger_predicate[of ?ctx "''Well, HELLO there''" "greetAutomation\<lparr>conditions := []\<rparr>"]
  have m: "messageText ?ctx = Some ''Well, HELLO there''" by simp
  have lo: "toLowerCase ''Well, HELLO there'' = ''well, '' @ toLowerCase ''hello'' @ '' there''"
    by code_simp
  have ex: "\<exists>pre post. toLowerCase ''Well, HELLO there'' = pre @ toLowerCase ''hello'' @ post"
    by (rule exI[of _ "''well, ''"], rule exI[of _ "'' there''"], rule lo)
  have c: "conditions greetAutomation = [keywordCondition [''hello'']]"
    by (simp add: greetAutomation_def)
  have k: "cond_type (keywordCondition [''hello'']) = ''keywordSms''
           \<and> (\<exists>ps kws. cond_parameters (keywordCondition [''hello'']) = Some ps
                  \<and> cond_keywords ps = Some kws
                  \<and> (\<exists>k\<in>set kws. \<exists>pre post. toLowerCase ''Well, HELLO there'' = pre @ toLowerCase k @ post))"
    using ex by (simp add: keywordCondition_def)
  have r: "conditions greetAutomation \<noteq> []
         \<and> (\<exists>c\<in>set (conditions greetAutomation). cond_type c = ''incomingSms''
              \<or> (cond_type c = ''keywordSms''
                  \<and> (\<exists>ps kws. cond_parameters c = Some ps \<and> cond_keywords ps = Some kws
                        \<and> (\<exists>k\<in>set kws. \<exists>pre post.
                              toLowerCase ''Well, HELLO there'' = pre @ toLowerCase k @ post))))"
    using k by (simp add: c)
  have a1: "checkTriggerConditions greetAutomation ?ctx"
    using conjunct1[OF t1] m r by blast
  have a2: "\<not> checkTriggerConditions (greetAutomation\<lparr>conditions := []\<rparr>) ?ctx"
    using conjunct2[OF t2] by simp
  show ?thesis using a1 a2 by blast
qed

section \<open>Inbound SMS round trip\<close>

lemma stop_includes: "str_includes (toLowerCase ''STOP'') (toLowerCase ''stop'')"
  by code_simp

text \<open>
  Claim C6. An inbound SMS \<open>STOP\<close> to \<open>+15551234567\<close>, where the only active
  automation of that number is \<open>a\<close>, with the single condition \<open>keywordSms\<close> on the
  keyword \<open>stop\<close> and the single action \<open>sendSms\<close> with the literal message and no
  delay: \<open>processIncomingSms\<close> returns \<open>processed: true\<close>, the name of \<open>a\<close> as the
  only triggered automation and total 1, and submits exactly one message, from the number
  of the automation to the sender, with the literal text.
\<close>

theorem C6_stop_roundtrip:
  assumes db: "filter (\<lambda>x. isActive x \<and> automation_phoneNumber x = ''+15551234567'')
                      (automations_db w) = [a]"
    and conds: "conditions a = [c] \<and> cond_type c = ''keywordSms''
                \<and> cond_parameters c = Some ps \<and> cond_keywords ps = Some [''stop'']"
    and acts: "actions a = [act] \<and> act_type act = ''sendSms'' \<and> act_parameters act = Some aps
               \<and> template aps = None \<and> act_message aps = Some ''You have been unsubscribed.''
               \<and> delay aps = None"
    and sender: "sender \<noteq> []"
  shows "fst (processIncomingSms env clk
                \<lparr>sms_to = ''+15551234567'', sms_from = sender, sms_text = ''STOP''\<rparr> w)
           = \<lparr>processed = True, reason = None,
              triggeredAutomations = Some [automation_name a], total = Some 1\<rparr>
         \<and> sent (snd (processIncomingSms env clk
                \<lparr>sms_to = ''+15551234567'', sms_from = sender, sms_text = ''STOP''\<rparr> w))
           = sent w @ [(''+15551234567'', sender, ''You have been unsubscribed.'')]"
proof -
  let ?d = "\<lparr>sms_to = ''+15551234567'', sms_from = sender, sms_text = ''STOP''\<rparr>"
  have q: "filter (\<lambda>a. isActive a \<and> automation_phoneNumber a = sms_to ?d
                         \<and> anyCondition (\<lambda>c. cond_type c = ''incomingSms'' \<or> cond_type c = ''keywordSms'') a)
                   (automations_db w) = [a]"
  proof -
    have "filter (\<lambda>a. isActive a \<and> automation_phoneNumber a = sms_to ?d
                         \<and> anyCondition (\<lambda>c. cond_type c = ''incomingSms'' \<or> cond_type c = ''keywordSms'') a)
                   (automations_db w)
          = filter (anyCondition (\<lambda>c. cond_type c = ''incomingSms'' \<or> cond_type c = ''keywordSms''))
              (filter (\<lambda>x. isActive x \<and> automation_phoneNumber x = ''+15551234567'') (automations_db w))"
      by (simp add: conj_commute conj_left_commute cong: conj_cong)
    then show ?thesis using db conds by (simp add: anyCondition_def)
  qed
  have trig: "checkTriggerConditions a (incomingSmsContext ?d)"
    using conds stop_includes
    by (simp add: checkTriggerConditions_def incomingSmsContext_def emptyContext_def)
  have nodelay: "delayOf act = None"
    using acts by (simp add: delayOf_def)
  have send: "executeSendSmsAction env act
                ((incomingSmsContext ?d)\<lparr>automationId := Some (automation_id a)\<rparr>) w
              = ((case messaging env (sent w) (''+15551234567'', sender, ''You have been unsubscribed.'') of
                    Inl m \<Rightarrow> Inl (Error (''Failed to send SMS: '' @ m))
                  | Inr i \<Rightarrow> Inr ((resultOf ''sendSms'' ''success'')
                                 \<lparr>r_messageId := Some i, r_to := Some sender, r_from := Some ''+15551234567''\<rparr>)),
                 w\<lparr>sent := sent w @ [(''+15551234567'', sender, ''You have been unsubscribed.'')]\<rparr>)"
    using acts sender
    by (simp add: executeSendSmsAction_def io_defs sendSMS_def incomingSmsContext_def emptyContext_def
             split: sum.splits)
  have exec: "snd (executeAutomationActions env a
                ((incomingSmsContext ?d)\<lparr>automationId := Some (automation_id a)\<rparr>) w)
              = w\<lparr>sent := sent w @ [(''+15551234567'', sender, ''You have been unsubscribed.'')]\<rparr>"
    using acts nodelay send
    by (simp add: executeAutomationActions_def executeAction_def case_prod_beta split: sum.splits)
  show ?thesis
    unfolding processIncomingSms_def Let_def q
    using trig exec
    by (simp add: triggered_def recordTrigger_def updateStats_def)
qed

text \<open>
  The collection holds an inactive automation and the active \<open>Unsubscribe\<close> automation;
  the sender is \<open>+15559990000\<close>.
\<close>

theorem C6_stop_roundtrip_witness:
  "fst (processIncomingSms env0 mondayTen
          \<lparr>sms_to = ''+15551234567'', sms_from = ''+15559990000'', sms_text = ''STOP''\<rparr> smsIdle)
     = \<lparr>processed = True, reason = None,
        triggeredAutomations = Some [''Unsubscribe''], total = Some 1\<rparr>
   \<and> sent (snd (processIncomingSms env0 mondayTen
          \<lparr>sms_to = ''+15551234567'', sms_from = ''+15559990000'', sms_text = ''STOP''\<rparr> smsIdle))
     = [(''+15551234567'', ''+15559990000'', ''You have been unsubscribed.'')]"
proof -
  have db: "filter (\<lambda>x. isActive x \<and> automation_phoneNumber x = ''+15551234567'')
                   (automations_db smsIdle) = [stopAutomation]"
    by (simp add: smsIdle_def stopAutomation_def followUp_def)
  have conds: "conditions stopAutomation = [keywordCondition [''stop'']]
       \<and> cond_type (keywordCondition [''stop'']) = ''keywordSms''
       \<and> cond_parameters (keywordCondition [''stop''])
           = Some \<lparr>cond_keywords = Some [''stop''], cond_time = None,
                    cond_daysOfWeek = None, cond_availabilityStatus = None\<rparr>
       \<and> cond_keywords \<lparr>cond_keywords = Some [''stop''], cond_time = None,
                    cond_daysOfWeek = None, cond_availabilityStatus = None\<rparr> = Some [''stop'']"
    by (simp add: stopAutomation_def keywordCondition_def)
  have acts: "actions stopAutomation = [literalSms ''You have been unsubscribed.'' None]
       \<and> act_type (literalSms ''You have been unsubscribed.'' None) = ''sendSms''
       \<and> act_parameters (literalSms ''You have been unsubscribed.'' None)
           = Some \<lparr>template = None, act_message = Some ''You have been unsubscribed.'', delay = None,
                    notifyMethod = None, notifyUsers = []\<rparr>
       \<and> template \<lparr>template = None, act_message = Some ''You have been unsubscribed.'', delay = None,
                    notifyMethod = None, notifyUsers = []\<rparr> = None
       \<and> act_message \<lparr>template = None, act_message = Some ''You have been unsubscribed.'', delay = None,
                    notifyMethod = None, notifyUsers = []\<rparr> = Some ''You have been unsubscribed.''
       \<and> delay \<lparr>template = None, act_message = Some ''You have been unsubscribed.'', delay = None,
                    notifyMethod = None, notifyUsers = []\<rparr> = None"
    by (simp add: stopAutomation_def literalSms_def)
  have sender: "''+15559990000'' \<noteq> []" by simp
  have n: "automation_name stopAutomation = ''Unsubscribe''" "sent smsIdle = []"
    by (simp_all add: stopAutomation_def smsIdle_def)
  show ?thesis
    using C6_stop_roundtrip[OF db conds acts sender, of env0 mondayTen] by (simp add: n)
qed

section \<open>Template rendering\<close>

text \<open>
  Claim C7 says that a placeholder is replaced only where it occurs literally and that a
  placeholder outside the variable table is left as it is. The key \<open>{{user.name}}\<close> is
  compiled as a regular expression, in which the dot matches any code unit: the
  placeholder \<open>{{user_name}}\<close>, which is not in the table, is replaced by the name of
  the user.
\<close>

theorem C7_dot_is_wildcard:
  "processTemplate env0 \<lparr>content = ''Hi {{user_name}}''\<rparr> (emptyContext\<lparr>ctx_user := Some bob\<rparr>)
     = ''Hi Bob Stone''"
  by (simp add: processTemplate_def emptyContext_def env0_def bob_def variables_def
        replaceVariables_def replaceAll_def compileKey_def firstWord_def)

section \<open>Delayed actions: properties\<close>

lemma executeSendSmsAction_pending:
  "executeSendSmsAction env act ctx (w\<lparr>pending := p\<rparr>)
     = (fst (executeSendSmsAction env act ctx w),
        (snd (executeSendSmsAction env act ctx w))\<lparr>pending := p\<rparr>)"
  by (auto simp: executeSendSmsAction_def io_defs sendSMS_def
           split: option.splits sum.splits prod.splits)

lemma executeAction_pending:
  "executeAction env act ctx (w\<lparr>pending := p\<rparr>)
     = (fst (executeAction env act ctx w), (snd (executeAction env act ctx w))\<lparr>pending := p\<rparr>)"
  by (auto simp: executeAction_def executeSendSmsAction_pending executeNotifyAction_def Let_def
           split: prod.splits sum.splits)

lemma executeAction_keeps_pending:
  "pending (snd (executeAction env act ctx w)) = pending w"
  by (auto simp: executeAction_def executeSendSmsAction_def io_defs sendSMS_def
                 executeNotifyAction_def Let_def
           split: option.splits sum.splits prod.splits)

lemma executeActions_immediate_pending:
  "snd (executeActions env aid (filter (\<lambda>x. delayOf x = None) xs) ctx (v\<lparr>pending := p\<rparr>))
     = (snd (executeActions env aid (filter (\<lambda>x. delayOf x = None) xs) ctx v))\<lparr>pending := p\<rparr>"
proof (induction xs arbitrary: v)
  case Nil
  show ?case by simp
next
  case (Cons x xs)
  show ?case
    using Cons.IH
    by (cases "delayOf x") (simp_all add: executeAction_pending case_prod_beta)
qed

lemma executeActions_world:
  "snd (executeActions env aid acts ctx w)
     = (snd (executeActions env aid (filter (\<lambda>act. delayOf act = None) acts) ctx w))
         \<lparr>pending := pending w @ List.map_filter (timerFor aid ctx) acts\<rparr>"
proof (induction acts arbitrary: w)
  case Nil
  show ?case by simp
next
  case (Cons act acts)
  show ?case
  proof (cases "delayOf act")
    case None
    obtain r w1 where e: "executeAction env act ctx w = (r, w1)" by fastforce
    have p: "pending w1 = pending w"
      using executeAction_keeps_pending[of env act ctx w] e by simp
    show ?thesis
      using Cons.IH[of w1] None e p
      by (simp add: timerFor_def[of aid ctx act] case_prod_beta)
  next
    case (Some d)
    let ?w1 = "scheduleDelayedAction aid act d ctx w"
    have w1: "?w1 = w\<lparr>pending := pending w @
                 [\<lparr>delayMs = timerDelay (delayInMs d), d_automationId = aid, d_action = act,
                   d_context = ctx\<rparr>]\<rparr>"
      by (simp add: scheduleDelayedAction_def)
    show ?thesis
      using Cons.IH[of ?w1] Some
      by (simp add: timerFor_def[of aid ctx act] w1 executeActions_immediate_pending case_prod_beta)
  qed
qed

lemma executeActions_results:
  "list_all2 (\<lambda>act r. \<forall>d. delayOf act = Some d \<longrightarrow>
                  r = (resultOf (act_type act) ''scheduled'')\<lparr>r_delay := Some d\<rparr>)
     acts (fst (executeActions env aid acts ctx w))"
  by (induction acts arbitrary: w) (simp_all add: case_prod_beta split: option.splits)

text \<open>
  What holds of delayed actions. An action is delayed exactly when it has parameters with a
  delay whose value is above 0. In the results of \<open>executeAutomationActions\<close> every
  delayed action has the status \<open>scheduled\<close>. The world afterwards is the world after
  executing only the actions that are not delayed, except that for every delayed action, in
  order, one callback is registered, for this automation, action and context. Its delay is
  the value in minutes, or in hours or days when the unit says so, as milliseconds, when
  that is at most \<open>2^31 - 1\<close>, and 1 millisecond otherwise. When a callback runs, it does
  nothing if the automation is gone or not active, and otherwise executes the action and
  counts a success.
\<close>

lemma delayed_actions_registered:
  "(delayOf act = Some d \<longleftrightarrow>
      (\<exists>ps. act_parameters act = Some ps \<and> delay ps = Some d \<and> delay_value d > 0))
   \<and> list_all2 (\<lambda>act r. \<forall>d. delayOf act = Some d \<longrightarrow>
                   r_type r = act_type act \<and> r_status r = ''scheduled'' \<and> r_delay r = Some d)
        (actions a) (fst (executeAutomationActions env a ctx w))
   \<and> snd (executeAutomationActions env a ctx w)
        = (snd (executeActions env (automation_id a)
                  (filter (\<lambda>act. delayOf act = None) (actions a)) ctx w))
            \<lparr>pending := pending w @ List.map_filter (timerFor (automation_id a) ctx) (actions a)\<rparr>
   \<and> (delayOf act = Some d \<longrightarrow>
        timerFor aid ctx act
          = Some \<lparr>delayMs =
                    (let ms = (if unit d = Some ''hours'' then delay_value d * 3600000
                               else if unit d = Some ''days'' then delay_value d * 86400000
                               else delay_value d * 60000)
                     in if ms \<le> 2147483647 then ms else 1),
                  d_automationId = aid, d_action = act, d_context = ctx\<rparr>)
   \<and> (delayOf act = None \<longrightarrow> timerFor aid ctx act = None)
   \<and> ((find (\<lambda>x. automation_id x = d_automationId t) (automations_db v) = None
        \<or> (\<exists>x. find (\<lambda>x. automation_id x = d_automationId t) (automations_db v) = Some x
                \<and> \<not> isActive x))
       \<longrightarrow> fireDelayedAction env t v = v)
   \<and> (\<forall>x. find (\<lambda>x. automation_id x = d_automationId t) (automations_db v) = Some x
            \<and> isActive x
        \<longrightarrow> fireDelayedAction env t v
              = updateStats (d_automationId t) (\<lambda>s. s\<lparr>successCount := successCount s + 1\<rparr>)
                  (snd (executeAction env (d_action t) (d_context t) v)))"
proof -
  have A: "delayOf act = Some d \<longleftrightarrow>
      (\<exists>ps. act_parameters act = Some ps \<and> delay ps = Some d \<and> delay_value d > 0)"
    by (auto simp: delayOf_def split: option.splits)
  have B: "list_all2 (\<lambda>act r. \<forall>d. delayOf act = Some d \<longrightarrow>
                   r_type r = act_type act \<and> r_status r = ''scheduled'' \<and> r_delay r = Some d)
        (actions a) (fst (executeAutomationActions env a ctx w))"
    unfolding executeAutomationActions_def
    by (rule list_all2_mono[OF executeActions_results]) (simp add: resultOf_def)
  have C: "snd (executeAutomationActions env a ctx w)
        = (snd (executeActions env (automation_id a)
                  (filter (\<lambda>act. delayOf act = None) (actions a)) ctx w))
            \<lparr>pending := pending w @ List.map_filter (timerFor (automation_id a) ctx) (actions a)\<rparr>"
    unfolding executeAutomationActions_def by (rule executeActions_world)
  have D: "delayOf act = Some d \<longrightarrow>
        timerFor aid ctx act
          = Some \<lparr>delayMs =
                    (let ms = (if unit d = Some ''hours'' then delay_value d * 3600000
                               else if unit d = Some ''days'' then delay_value d * 86400000
                               else delay_value d * 60000)
                     in if ms \<le> 2147483647 then ms else 1),
                  d_automationId = aid, d_action = act, d_context = ctx\<rparr>"
  proof
    assume h: "delayOf act = Some d"
    then have "delay_value d > 0" using A by blast
    then show "timerFor aid ctx act
          = Some \<lparr>delayMs =
                    (let ms = (if unit d = Some ''hours'' then delay_value d * 3600000
                               else if unit d = Some ''days'' then delay_value d * 86400000
                               else delay_value d * 60000)
                     in if ms \<le> 2147483647 then ms else 1),
                  d_automationId = aid, d_action = act, d_context = ctx\<rparr>"
      using h by (simp add: timerFor_def delayInMs_def timerDelay_def TIMEOUT_MAX_def Let_def)
  qed
  have E: "delayOf act = None \<longrightarrow> timerFor aid ctx act = None"
    by (simp add: timerFor_def)
  have F: "(find (\<lambda>x. automation_id x = d_automationId t) (automations_db v) = None
        \<or> (\<exists>x. find (\<lambda>x. automation_id x = d_automationId t) (automations_db v) = Some x
                \<and> \<not> isActive x))
       \<longrightarrow> fireDelayedAction env t v = v"
    by (auto simp: fireDelayedAction_def)
  have G: "\<forall>x. find (\<lambda>x. automation_id x = d_automationId t) (automations_db v) = Some x
            \<and> isActive x
        \<longrightarrow> fireDelayedAction env t v
              = updateStats (d_automationId t) (\<lambda>s. s\<lparr>successCount := successCount s + 1\<rparr>)
                  (snd (executeAction env (d_action t) (d_context t) v))"
    by (auto simp: fireDelayedAction_def)
  show ?thesis by (intro conjI A B C D E F G)
qed

text \<open>
  The automation \<open>Follow up\<close> has one action, delayed by 5 minutes: a callback is
  registered for 300000 ms, and in a collection where the automation has been deactivated
  the callback changes nothing.
\<close>

lemma five_minutes_deferred:
  "timerFor 8 hiContext (literalSms ''Still there?'' (Some fiveMinutes)) = Some followUpTimer
   \<and> fireDelayedAction env0 followUpTimer smsIdle = smsIdle"
  by (simp add: timerFor_def delayOf_def literalSms_def fiveMinutes_def delayInMs_def
        timerDelay_def TIMEOUT_MAX_def followUpTimer_def fireDelayedAction_def smsIdle_def
        followUp_def)

text \<open>
  Claim C8 says that a delayed action is deferred by its delay converted to milliseconds
  and does not run when the automation is deactivated during that time. The automation
  \<open>A month later\<close> has one action, delayed by 30 days, that is 2592000000 ms. This is
  above the limit of the timer: the callback is registered with a delay of 1 ms. It is the
  only pending callback, nothing has been sent inline, and when it runs, the automation
  being still active, the message is sent.
\<close>

theorem C8_thirty_days_runs_at_once:
  "delayInMs thirtyDays = 2592000000
   \<and> fst (executeAutomationActions env0 monthLater hiContext smsMonth)
       = [(resultOf ''sendSms'' ''scheduled'')\<lparr>r_delay := Some thirtyDays\<rparr>]
   \<and> snd (executeAutomationActions env0 monthLater hiContext smsMonth)
       = smsMonth\<lparr>pending :=
           [\<lparr>delayMs = 1, d_automationId = 11,
             d_action = literalSms ''It has been a month.'' (Some thirtyDays),
             d_context = hiContext\<rparr>]\<rparr>
   \<and> sent (fireDelayedAction env0
             \<lparr>delayMs = 1, d_automationId = 11,
              d_action = literalSms ''It has been a month.'' (Some thirtyDays),
              d_context = hiContext\<rparr>
             (snd (executeAutomationActions env0 monthLater hiContext smsMonth)))
       = [(''+15557654321'', ''+15559990000'', ''It has been a month.'')]"
proof -
  let ?act = "literalSms ''It has been a month.'' (Some thirtyDays)"
  let ?t = "\<lparr>delayMs = 1, d_automationId = 11, d_action = ?act, d_context = hiContext\<rparr>"
  have ms: "delayInMs thirtyDays = 2592000000"
    by (simp add: delayInMs_def thirtyDays_def)
  have td: "timerDelay (delayInMs thirtyDays) = 1"
    by (simp add: ms timerDelay_def TIMEOUT_MAX_def)
  have d: "delayOf ?act = Some thirtyDays"
    by (simp add: delayOf_def literalSms_def thirtyDays_def)
  have a: "actions monthLater = [?act]" "automation_id monthLater = 11"
    by (simp_all add: monthLater_def)
  have ty: "act_type ?act = ''sendSms''"
    by (simp add: literalSms_def)
  have run: "executeAutomationActions env0 monthLater hiContext smsMonth
       = ([(resultOf ''sendSms'' ''scheduled'')\<lparr>r_delay := Some thirtyDays\<rparr>],
          smsMonth\<lparr>pending := [?t]\<rparr>)"
    by (simp add: executeAutomationActions_def a d ty td scheduleDelayedAction_def smsMonth_def)
  have on: "find (\<lambda>x. automation_id x = 11) (automations_db smsMonth) = Some monthLater"
    by (simp add: smsMonth_def monthLater_def)
  have act: "isActive monthLater"
    by (simp add: monthLater_def)
  have ex: "sent (snd (executeAction env0 ?act hiContext (smsMonth\<lparr>pending := [?t]\<rparr>)))
              = [(''+15557654321'', ''+15559990000'', ''It has been a month.'')]"
    by (simp add: executeAction_def executeSendSmsAction_def io_defs sendSMS_def
          literalSms_def hiContext_def incomingSmsContext_def emptyContext_def env0_def smsMonth_def)
  have fire: "sent (fireDelayedAction env0 ?t (smsMonth\<lparr>pending := [?t]\<rparr>))
       = [(''+15557654321'', ''+15559990000'', ''It has been a month.'')]"
    using ex by (simp add: fireDelayedAction_def on act updateStats_def)
  show ?thesis
    using ms fire by (simp add: run)
qed

section \<open>Contexts without a sender: properties\<close>

lemma executeSendSmsAction_no_sender:
  assumes "ctx_from ctx = None"
  shows "executeSendSmsAction env act ctx w =
     (Inl (Error (case act_parameters act of
                    None \<Rightarrow> ''Missing action parameters''
                  | Some ps \<Rightarrow>
                      if template ps = None \<and> \<not> truthy (act_message ps)
                      then ''No template or message provided for SMS action''
                      else ''Missing required to/from phone numbers'')), w)"
  using assms
  by (cases "orElse (ctx_to ctx) (Option.bind (ctx_user ctx) telnyxPhoneNumber)")
     (auto simp: executeSendSmsAction_def io_defs split: option.splits)

lemma executeAction_no_sender_sent:
  assumes "ctx_from ctx = None"
  shows "sent (snd (executeAction env act ctx w)) = sent w"
  using assms
  by (simp add: executeAction_def executeSendSmsAction_no_sender executeNotifyAction_def Let_def)

lemma executeActions_no_sender_sent:
  assumes "ctx_from ctx = None"
  shows "sent (snd (executeActions env aid acts ctx w)) = sent w"
  using assms
proof (induction acts arbitrary: w)
  case Nil
  show ?case by simp
next
  case (Cons act acts)
  show ?case
  proof (cases "delayOf act")
    case None
    then show ?thesis
      using Cons.IH[OF Cons.prems, of "snd (executeAction env act ctx w)"]
            executeAction_no_sender_sent[OF Cons.prems, of env act w]
      by (simp add: case_prod_beta)
  next
    case (Some d)
    then show ?thesis
      using Cons.IH[OF Cons.prems, of "scheduleDelayedAction aid act d ctx w"]
      by (simp add: case_prod_beta scheduleDelayedAction_def)
  qed
qed

lemma executeAll_no_sender_sent:
  assumes "\<forall>(a, ctx)\<in>set xs. ctx_from ctx = None"
  shows "sent (snd (executeAll env clk xs names w)) = sent w"
  using assms
proof (induction xs arbitrary: names w)
  case Nil
  show ?case by simp
next
  case (Cons x xs)
  obtain a ctx where x: "x = (a, ctx)" by (cases x)
  have c: "ctx_from ctx = None" using Cons.prems x by simp
  have r: "\<forall>(a, ctx)\<in>set xs. ctx_from ctx = None" using Cons.prems by simp
  show ?case
    using Cons.IH[OF r] executeActions_no_sender_sent[OF c]
    by (simp add: x recordTrigger_def updateStats_def executeAutomationActions_def)
qed

lemma scheduledContext_from: "ctx_from (scheduledContext clk a u) = None"
  by (simp add: scheduledContext_def emptyContext_def)

lemma availabilityContext_from: "ctx_from (availabilityContext st uid u a) = None"
  by (simp add: availabilityContext_def emptyContext_def)

lemma processScheduledAutomations_sent:
  "sent (snd (processScheduledAutomations env clk w)) = sent w"
  unfolding processScheduledAutomations_def
  by (auto simp: case_prod_beta scheduledContext_from intro!: executeAll_no_sender_sent
           split: sum.splits)

lemma processAvailabilityChange_sent:
  "sent (snd (processAvailabilityChange env clk uid b w)) = sent w"
  unfolding processAvailabilityChange_def
  by (auto simp: case_prod_beta availabilityContext_from Let_def intro!: executeAll_no_sender_sent
           split: sum.splits option.splits)

text \<open>
  Claim C10 says that, in a context of the scheduled or the availability entry point, a
  \<open>sendSms\<close> action always fails with \<open>Missing required to/from phone numbers\<close>. The
  automation \<open>Morning note\<close> is triggered by the scheduled entry point on Monday at
  10:00; its \<open>sendSms\<close> action has neither a template nor a message, the check of the
  message comes first, and the action fails with
  \<open>No template or message provided for SMS action\<close>.
\<close>

theorem C10_other_message_counterexample:
  "fst (processScheduledAutomations env0 mondayTen (smsIdle\<lparr>automations_db := [morningNote]\<rparr>))
     = Inr (triggered [''Morning note''])
   \<and> r_status (fst (executeAction env0 bareSms (scheduledContext mondayTen morningNote None) smsIdle))
     = ''error''
   \<and> r_error (fst (executeAction env0 bareSms (scheduledContext mondayTen morningNote None) smsIdle))
     = Some ''No template or message provided for SMS action''
   \<and> r_error (fst (executeAction env0 bareSms (scheduledContext mondayTen morningNote None) smsIdle))
     \<noteq> Some ''Missing required to/from phone numbers''"
  by (simp add: executeAction_def executeSendSmsAction_def io_defs bareSms_def resultOf_def
        processScheduledAutomations_def morningNote_def mondayTen_def env0_def smsIdle_def
        anyCondition_def executeAutomationActions_def delayOf_def case_prod_beta)

text \<open>
  Claim C10, amended. The contexts that \<open>processScheduledAutomations\<close> and
  \<open>processAvailabilityChange\<close> build have no \<open>from\<close>, and neither entry point ever
  submits a message. In a context without \<open>from\<close> a \<open>sendSms\<close> action leaves the
  world as it is and its result has the status \<open>error\<close>; the error is
  \<open>Missing required to/from phone numbers\<close> when the action has parameters with a
  template or a non-empty message, \<open>No template or message provided for SMS action\<close>
  when it has parameters with neither, and \<open>Missing action parameters\<close> when it has no
  parameters.
\<close>

theorem C10_no_sender_no_send:
  "ctx_from (scheduledContext clk a u) = None
   \<and> ctx_from (availabilityContext st uid u' a) = None
   \<and> sent (snd (processScheduledAutomations env clk w)) = sent w
   \<and> sent (snd (processAvailabilityChange env clk uid b w)) = sent w
   \<and> (ctx_from ctx = None \<and> act_type act = ''sendSms'' \<longrightarrow>
        snd (executeAction env act ctx w) = w
        \<and> r_status (fst (executeAction env act ctx w)) = ''error''
        \<and> r_error (fst (executeAction env act ctx w))
            = Some (case act_parameters act of
                      None \<Rightarrow> ''Missing action parameters''
                    | Some ps \<Rightarrow>
                        if template ps = None \<and> \<not> truthy (act_message ps)
                        then ''No template or message provided for SMS action''
                        else ''Missing required to/from phone numbers''))"
  by (simp add: scheduledContext_from availabilityContext_from processScheduledAutomations_sent
        processAvailabilityChange_sent executeAction_def executeSendSmsAction_no_sender resultOf_def)

text \<open>
  A \<open>sendSms\<close> action with a literal message, in the context of a scheduled automation:
  nothing is sent and the error is the missing number.
\<close>

theorem C10_no_sender_no_send_witness:
  "snd (executeAction env0 (literalSms ''Good morning'' None)
          (scheduledContext mondayTen morningNote None) smsIdle) = smsIdle
   \<and> r_status (fst (executeAction env0 (literalSms ''Good morning'' None)
          (scheduledContext mondayTen morningNote None) smsIdle)) = ''error''
   \<and> r_error (fst (executeAction env0 (literalSms ''Good morning'' None)
          (scheduledContext mondayTen morningNote None) smsIdle))
       = Some ''Missing required to/from phone numbers''"
proof -
  let ?act = "literalSms ''Good morning'' None"
  let ?ctx = "scheduledContext mondayTen morningNote None"
  note t = C10_no_sender_no_send[where clk = mondayTen and a = morningNote and u = None
      and env = env0 and w = smsIdle and ctx = ?ctx and act = ?act]
  have h: "ctx_from ?ctx = None \<and> act_type ?act = ''sendSms''"
    using t by (simp add: literalSms_def)
  have p: "(case act_parameters ?act of
              None \<Rightarrow> ''Missing action parameters''
            | Some ps \<Rightarrow>
                if template ps = None \<and> \<not> truthy (act_message ps)
                then ''No template or message provided for SMS action''
                else ''Missing required to/from phone numbers'')
           = ''Missing required to/from phone numbers''"
    by (simp add: literalSms_def)
  show ?thesis
    using t h by (simp add: p)
qed

end
